theory Spec2Isabelle
  imports Complex_Main
begin

section \<open>Data model (types.ts, upbitService.ts)\<close>

text \<open>
  The trading bot of \<^verbatim>\<open>src/index.tsx\<close>: the live polling loop \<^verbatim>\<open>updateLoop\<close>, the
  start/stop button handler \<^verbatim>\<open>handleToggleBot\<close> and the simulator \<^verbatim>\<open>runBacktest\<close>.

  Numbers. Every quantity of the source is a JavaScript \<^verbatim>\<open>number\<close>. Prices, amounts and
  percentages are modelled as \<^typ>\<open>real\<close>: the arithmetic is the exact one, rounding of
  IEEE doubles is not modelled. A division by zero gives \<^verbatim>\<open>Infinity\<close> or \<^verbatim>\<open>NaN\<close> in the
  source and \<open>0\<close> in HOL; the theorems about a tick's decision or about the totals of a
  position assume positive prices (and, for the totals, positive amounts), which keeps
  every divisor they depend on away from zero.

  Counters. \<^verbatim>\<open>currentStep\<close> and the backtest's \<^verbatim>\<open>step\<close>, \<^verbatim>\<open>trades\<close>, \<^verbatim>\<open>wins\<close> and
  \<^verbatim>\<open>losses\<close> only ever hold \<open>0\<close>, \<open>1\<close> or the result of an increment, so they are
  \<^typ>\<open>nat\<close>; \<^verbatim>\<open>maxBuySteps\<close> is what \<^verbatim>\<open>parseInt\<close> of a form field gives, an \<^typ>\<open>int\<close>
  of either sign.

  Field names are the source's; where two interfaces share a field name the later record
  carries a prefix (\<open>tr\<close> for \<^verbatim>\<open>TradeRecord\<close>, \<open>bt\<close> for the locals of \<^verbatim>\<open>runBacktest\<close>,
  \<open>c\<close> for \<^verbatim>\<open>CandleData\<close>).
\<close>

record TradingConfig =
  accessKey :: string
  secretKey :: string
  coin :: string
  maxBuySteps :: int
  buyInterval :: real
  targetProfit :: real
  stopLoss :: real
  initialAmount :: real
  premiumRate :: real
  useProxy :: bool

text \<open>\<^verbatim>\<open>TradeStatus & { lastBuyPrice: number }\<close>, the type of the \<^verbatim>\<open>status\<close> state.\<close>

record TradeStatus =
  isActive :: bool
  currentStep :: nat
  averagePrice :: real
  totalQuantity :: real
  totalInvested :: real
  currentPrice :: real
  pnlPercentage :: real
  currentChangeRate :: real
  lastBuyPrice :: real

datatype ExitType = PROFIT | LOSS

text \<open>
  \<^verbatim>\<open>TradeRecord\<close> without \<^verbatim>\<open>id\<close>, \<^verbatim>\<open>timestamp\<close> (both read the wall clock) and
  \<^verbatim>\<open>coinName\<close> (a lookup in the market list, for display).
\<close>

record TradeRecord =
  trCoin :: string
  exitType :: ExitType
  trPnlPercentage :: real
  pnlAmount :: real
  trTotalInvested :: real
  finalStep :: nat

record TickerData =
  price :: real
  changeRate :: real

record CandleData =
  time :: string
  cprice :: real
  high :: "real option"
  low :: "real option"

text \<open>
  \<^verbatim>\<open>placeUpbitOrder\<close> is the exchange client: it returns the exchange's answer or throws
  an \<^verbatim>\<open>Error\<close> with a message. Its outcome is an input of the model.
\<close>

datatype OrderOutcome = OrderOk | OrderFailed string

text \<open>
  What the handlers can show the user with \<^verbatim>\<open>alert\<close>: the request to finish the API
  settings, the message of a thrown error, and the fixed texts used when the ticker is
  missing or the error has no message.
\<close>

datatype Alert = ApiSettingsMissing | TickerMissing | StartFailed | ErrorMessage string

text \<open>
  The part of the component's state the engine reads and writes. \<^verbatim>\<open>console\<close> collects
  the texts passed to \<^verbatim>\<open>console.error\<close>, \<^verbatim>\<open>alerts\<close> the calls of \<^verbatim>\<open>alert\<close>. The chart
  data (\<^verbatim>\<open>priceHistory\<close>, \<^verbatim>\<open>priceFlash\<close>, \<^verbatim>\<open>lastPriceRef\<close>) is presentation only and is
  left out. The refs \<^verbatim>\<open>statusRef\<close> and \<^verbatim>\<open>configRef\<close> mirror the state after each render;
  one call of a handler is one atomic step here.
\<close>

record Engine =
  status :: TradeStatus
  tradeHistory :: "TradeRecord list"
  isStarting :: bool
  isNetworkError :: bool
  console :: "string list"
  alerts :: "Alert list"

text \<open>The initial \<^verbatim>\<open>useState\<close> values.\<close>

definition initialStatus :: TradeStatus where
  "initialStatus =
     \<lparr>isActive = False, currentStep = 0, averagePrice = 0, totalQuantity = 0,
      totalInvested = 0, currentPrice = 0, pnlPercentage = 0, currentChangeRate = 0,
      lastBuyPrice = 0\<rparr>"

definition initialEngine :: Engine where
  "initialEngine =
     \<lparr>status = initialStatus, tradeHistory = [], isStarting = False,
      isNetworkError = False, console = [], alerts = []\<rparr>"

section \<open>The live engine (updateLoop, handleToggleBot)\<close>

text \<open>JavaScript's \<^verbatim>\<open>a || b\<close> on numbers: \<open>a\<close> unless it is zero.\<close>

definition js_or :: "real \<Rightarrow> real \<Rightarrow> real" where
  "js_or a b = (if a \<noteq> 0 then a else b)"

text \<open>Line 208: the profit-and-loss percentage of an active position.\<close>

definition pnl :: "TradeStatus \<Rightarrow> real \<Rightarrow> real" where
  "pnl currentStatus p =
     ((p - averagePrice currentStatus) / (js_or (averagePrice currentStatus) p)) * 100"

text \<open>Line 210: the exit condition; line 211: the kind of exit.\<close>

definition exitCondition :: "TradingConfig \<Rightarrow> TradeStatus \<Rightarrow> real \<Rightarrow> bool" where
  "exitCondition currentConf currentStatus p \<longleftrightarrow>
     pnl currentStatus p \<ge> targetProfit currentConf \<or>
     pnl currentStatus p \<le> - stopLoss currentConf"

definition exitTypeOf :: "TradingConfig \<Rightarrow> TradeStatus \<Rightarrow> real \<Rightarrow> ExitType" where
  "exitTypeOf currentConf currentStatus p =
     (if pnl currentStatus p \<ge> targetProfit currentConf then PROFIT else LOSS)"

text \<open>Lines 212-222: the record of an exit.\<close>

definition exitRecord :: "TradingConfig \<Rightarrow> TradeStatus \<Rightarrow> real \<Rightarrow> TradeRecord" where
  "exitRecord currentConf currentStatus p =
     \<lparr>trCoin = coin currentConf,
      exitType = exitTypeOf currentConf currentStatus p,
      trPnlPercentage = pnl currentStatus p,
      pnlAmount = totalInvested currentStatus * (pnl currentStatus p / 100),
      trTotalInvested = totalInvested currentStatus,
      finalStep = currentStep currentStatus\<rparr>"

text \<open>Lines 231-242: the status after an exit.\<close>

definition exitStatus :: "TradeStatus \<Rightarrow> TickerData \<Rightarrow> TradeStatus" where
  "exitStatus prev ticker =
     prev\<lparr>isActive := False, currentStep := 0, pnlPercentage := 0, totalInvested := 0,
          totalQuantity := 0, averagePrice := 0, lastBuyPrice := 0,
          currentPrice := price ticker, currentChangeRate := changeRate ticker\<rparr>"

text \<open>Line 244: the condition of a scale-in.\<close>

definition scaleInCondition :: "TradingConfig \<Rightarrow> TradeStatus \<Rightarrow> real \<Rightarrow> bool" where
  "scaleInCondition currentConf currentStatus p \<longleftrightarrow>
     int (currentStep currentStatus) < maxBuySteps currentConf \<and>
     p \<le> lastBuyPrice currentStatus * (1 - buyInterval currentConf / 100)"

text \<open>
  Line 246: the amount of the buy that takes the position to step \<open>nextStep\<close>.
  \<^verbatim>\<open>Math.pow\<close> is only ever applied to the exponent \<^verbatim>\<open>nextStep - 1\<close> with
  \<open>nextStep = currentStep + 1\<close>, a natural number.
\<close>

definition currentBuyAmount :: "TradingConfig \<Rightarrow> nat \<Rightarrow> real" where
  "currentBuyAmount currentConf nextStep =
     (initialAmount currentConf * 10000) * (1 + premiumRate currentConf / 100) ^ (nextStep - 1)"

text \<open>Lines 245-265: the status after a scale-in whose order went through.\<close>

definition scaleInStatus :: "TradingConfig \<Rightarrow> TradeStatus \<Rightarrow> TickerData \<Rightarrow> TradeStatus" where
  "scaleInStatus currentConf currentStatus ticker =
     (let nextStep = currentStep currentStatus + 1;
          amount = currentBuyAmount currentConf nextStep;
          newTotalInvested = totalInvested currentStatus + amount;
          newTotalQuantity = totalQuantity currentStatus + (amount / price ticker);
          newAveragePrice = newTotalInvested / newTotalQuantity
      in currentStatus\<lparr>currentStep := nextStep, averagePrice := newAveragePrice,
           totalQuantity := newTotalQuantity, totalInvested := newTotalInvested,
           lastBuyPrice := price ticker, currentPrice := price ticker,
           currentChangeRate := changeRate ticker,
           pnlPercentage := ((price ticker - newAveragePrice) / (js_or newAveragePrice 1)) * 100\<rparr>)"

text \<open>
  Lines 187-294, one run of \<^verbatim>\<open>updateLoop\<close>. \<open>tk\<close> is what \<^verbatim>\<open>fetchTickerData\<close> returned
  (\<^verbatim>\<open>null\<close> is \<open>None\<close>; the function catches its own errors) and \<open>order\<close> is the outcome
  of the one call of \<^verbatim>\<open>placeUpbitOrder\<close> the run makes, if it makes one. Both calls of
  \<^verbatim>\<open>placeUpbitOrder\<close> sit in a \<^verbatim>\<open>try\<close> whose \<^verbatim>\<open>catch\<close> only calls \<^verbatim>\<open>console.error\<close>, so
  the run always completes and hands back the next state.
\<close>

definition updateLoop :: "TradingConfig \<Rightarrow> TickerData option \<Rightarrow> OrderOutcome \<Rightarrow> Engine \<Rightarrow> Engine" where
  "updateLoop currentConf tk order e =
     (if isStarting e then e
      else case tk of
        None \<Rightarrow> e\<lparr>isNetworkError := True\<rparr>
      | Some ticker \<Rightarrow>
          let e1 = e\<lparr>isNetworkError := False\<rparr>;
              currentStatus = status e
          in if isActive currentStatus then
               if exitCondition currentConf currentStatus (price ticker) then
                 let e2 = e1\<lparr>tradeHistory :=
                            exitRecord currentConf currentStatus (price ticker) # tradeHistory e1\<rparr>;
                     e3 = (case order of
                             OrderOk \<Rightarrow> e2
                           | OrderFailed m \<Rightarrow> e2\<lparr>console := console e2 @ [''Exit order failed'']\<rparr>)
                 in e3\<lparr>status := exitStatus currentStatus ticker\<rparr>
               else if scaleInCondition currentConf currentStatus (price ticker) then
                 (case order of
                    OrderOk \<Rightarrow> e1\<lparr>status := scaleInStatus currentConf currentStatus ticker\<rparr>
                  | OrderFailed m \<Rightarrow> e1\<lparr>console := console e1 @ [''Scaling buy order failed'']\<rparr>)
               else e1\<lparr>status := currentStatus\<lparr>currentPrice := price ticker,
                                     currentChangeRate := changeRate ticker,
                                     pnlPercentage := pnl currentStatus (price ticker)\<rparr>\<rparr>
             else e1\<lparr>status := currentStatus\<lparr>currentPrice := price ticker,
                                   currentChangeRate := changeRate ticker\<rparr>\<rparr>)"

text \<open>Lines 337-352: the status after the first buy.\<close>

definition initialBuyAmount :: "TradingConfig \<Rightarrow> real" where
  "initialBuyAmount config = initialAmount config * 10000"

definition startStatus :: "TradingConfig \<Rightarrow> TickerData \<Rightarrow> TradeStatus" where
  "startStatus config ticker =
     \<lparr>isActive = True, currentStep = 1, averagePrice = price ticker,
      totalQuantity = initialBuyAmount config / price ticker,
      totalInvested = initialBuyAmount config, currentPrice = price ticker,
      pnlPercentage = 0, currentChangeRate = changeRate ticker,
      lastBuyPrice = price ticker\<rparr>"

text \<open>Lines 359-368: the status after a manual stop.\<close>

definition stopStatus :: "TradeStatus \<Rightarrow> TradeStatus" where
  "stopStatus prev =
     prev\<lparr>isActive := False, currentStep := 0, pnlPercentage := 0, averagePrice := 0,
          totalInvested := 0, totalQuantity := 0, lastBuyPrice := 0\<rparr>"

text \<open>
  Lines 325-370, one click on the start/stop button. A thrown error (no ticker, or the
  order was refused) ends in \<^verbatim>\<open>alert(e.message || ...)\<close>; \<^verbatim>\<open>isStarting\<close> is set for the
  duration of the start and cleared in \<^verbatim>\<open>finally\<close>.
\<close>

definition handleToggleBot :: "TradingConfig \<Rightarrow> TickerData option \<Rightarrow> OrderOutcome \<Rightarrow> Engine \<Rightarrow> Engine" where
  "handleToggleBot config tk order e =
     (if \<not> isActive (status e) then
        if accessKey config = [] \<or> secretKey config = [] then
          e\<lparr>alerts := alerts e @ [ApiSettingsMissing]\<rparr>
        else (case tk of
            None \<Rightarrow> e\<lparr>isStarting := False, alerts := alerts e @ [TickerMissing]\<rparr>
          | Some ticker \<Rightarrow>
              (case order of
                 OrderFailed m \<Rightarrow>
                   e\<lparr>isStarting := False,
                     alerts := alerts e @ [if m = [] then StartFailed else ErrorMessage m]\<rparr>
               | OrderOk \<Rightarrow> e\<lparr>status := startStatus config ticker, isStarting := False\<rparr>))
      else e\<lparr>status := stopStatus (status e)\<rparr>)"

section \<open>The backtest (runBacktest)\<close>

text \<open>Line 379: the locals of \<^verbatim>\<open>runBacktest\<close>.\<close>

record BtState =
  balance :: real
  step :: nat
  totalQty :: real
  avgPrice :: real
  btLastBuyPrice :: real
  trades :: nat
  wins :: nat
  losses :: nat
  btTotalInvested :: real
  peak :: real
  mdd :: real

definition btInitial :: BtState where
  "btInitial =
     \<lparr>balance = 0, step = 0, totalQty = 0, avgPrice = 0, btLastBuyPrice = 0, trades = 0,
      wins = 0, losses = 0, btTotalInvested = 0, peak = 0, mdd = 0\<rparr>"

record BacktestResult =
  totalProfit :: int
  profitRate :: real
  totalTrades :: nat
  winCount :: nat
  lossCount :: nat
  maxDrawdown :: real

datatype BacktestError = NoCandles

text \<open>Line 380.\<close>

definition initialInvestedCapital :: "TradingConfig \<Rightarrow> real" where
  "initialInvestedCapital config = initialAmount config * 10000"

text \<open>
  Lines 383-384: \<^verbatim>\<open>candle.low || candle.price\<close> and \<^verbatim>\<open>candle.high || candle.price\<close>; an
  absent field is \<^verbatim>\<open>undefined\<close>, which is falsy like \<open>0\<close>.
\<close>

definition candleLow :: "CandleData \<Rightarrow> real" where
  "candleLow candle = (case low candle of None \<Rightarrow> cprice candle | Some l \<Rightarrow> js_or l (cprice candle))"

definition candleHigh :: "CandleData \<Rightarrow> real" where
  "candleHigh candle = (case high candle of None \<Rightarrow> cprice candle | Some h \<Rightarrow> js_or h (cprice candle))"

text \<open>Lines 388-392: a position is opened at the candle's price.\<close>

definition openPosition :: "TradingConfig \<Rightarrow> BtState \<Rightarrow> real \<Rightarrow> BtState" where
  "openPosition config st p =
     st\<lparr>step := 1, totalQty := initialInvestedCapital config / p, avgPrice := p,
        btLastBuyPrice := p, btTotalInvested := initialInvestedCapital config\<rparr>"

text \<open>Lines 394-395.\<close>

definition slPrice :: "TradingConfig \<Rightarrow> BtState \<Rightarrow> real" where
  "slPrice config st = avgPrice st * (1 - stopLoss config / 100)"

definition tpPrice :: "TradingConfig \<Rightarrow> BtState \<Rightarrow> real" where
  "tpPrice config st = avgPrice st * (1 + targetProfit config / 100)"

text \<open>Lines 398-399 and 402-403: the position is closed at the given price.\<close>

definition closeLoss :: "TradingConfig \<Rightarrow> BtState \<Rightarrow> BtState" where
  "closeLoss config st =
     st\<lparr>balance := balance st + ((totalQty st * slPrice config st) - btTotalInvested st),
        trades := trades st + 1, losses := losses st + 1, step := 0, totalQty := 0,
        btTotalInvested := 0\<rparr>"

definition closeWin :: "TradingConfig \<Rightarrow> BtState \<Rightarrow> BtState" where
  "closeWin config st =
     st\<lparr>balance := balance st + ((totalQty st * tpPrice config st) - btTotalInvested st),
        trades := trades st + 1, wins := wins st + 1, step := 0, totalQty := 0,
        btTotalInvested := 0\<rparr>"

text \<open>Line 407, and lines 409-414: one simulated fill at the next rung of the ladder.\<close>

definition nextBuyPrice :: "TradingConfig \<Rightarrow> BtState \<Rightarrow> real" where
  "nextBuyPrice config st = btLastBuyPrice st * (1 - buyInterval config / 100)"

definition buyAmount :: "TradingConfig \<Rightarrow> nat \<Rightarrow> real" where
  "buyAmount config n =
     initialInvestedCapital config * (1 + premiumRate config / 100) ^ (n - 1)"

definition fillRung :: "TradingConfig \<Rightarrow> BtState \<Rightarrow> BtState" where
  "fillRung config st =
     (let n = step st + 1;
          newQty = totalQty st + buyAmount config n / nextBuyPrice config st;
          newInvested = btTotalInvested st + buyAmount config n
      in st\<lparr>step := n, totalQty := newQty, btTotalInvested := newInvested,
            avgPrice := newInvested / newQty, btLastBuyPrice := nextBuyPrice config st\<rparr>)"

text \<open>
  Lines 406-418: the \<^verbatim>\<open>while\<close> loop that fills as many rungs as the candle's low reaches.
  Every round raises \<^verbatim>\<open>step\<close>, so the loop ends at \<^verbatim>\<open>maxBuySteps\<close> at the latest.
\<close>

function scaleInLoop :: "TradingConfig \<Rightarrow> real \<Rightarrow> BtState \<Rightarrow> BtState" where
  "scaleInLoop config l st =
     (if int (step st) < maxBuySteps config \<and> l \<le> nextBuyPrice config st
      then scaleInLoop config l (fillRung config st)
      else st)"
  by pat_completeness auto
termination
  by (relation "measure (\<lambda>(config, l, st). nat (maxBuySteps config - int (step st)))")
     (auto simp: fillRung_def Let_def)

text \<open>Lines 387-420: the trading decision for one candle.\<close>

definition trade :: "TradingConfig \<Rightarrow> BtState \<Rightarrow> CandleData \<Rightarrow> BtState" where
  "trade config st candle =
     (if step st = 0 then openPosition config st (cprice candle)
      else if candleLow candle \<le> slPrice config st then closeLoss config st
      else if candleHigh candle \<ge> tpPrice config st then closeWin config st
      else scaleInLoop config (candleLow candle) st)"

text \<open>Lines 422-425: equity, running peak and maximum drawdown after the candle.\<close>

definition currentEquity :: "BtState \<Rightarrow> real \<Rightarrow> real" where
  "currentEquity st p =
     balance st + (if step st > 0 then (totalQty st * p) - btTotalInvested st else 0)"

definition drawdown :: "real \<Rightarrow> real \<Rightarrow> real" where
  "drawdown pk equity = (if pk \<le> 0 then 0 else (pk - equity) / pk * 100)"

definition track :: "BtState \<Rightarrow> real \<Rightarrow> BtState" where
  "track st p =
     (let equity = currentEquity st p;
          pk = (if equity > peak st then equity else peak st);
          dd = drawdown pk equity
      in st\<lparr>peak := pk, mdd := (if dd > mdd st then dd else mdd st)\<rparr>)"

definition processCandle :: "TradingConfig \<Rightarrow> BtState \<Rightarrow> CandleData \<Rightarrow> BtState" where
  "processCandle config st candle = track (trade config st candle) (cprice candle)"

text \<open>
  \<^verbatim>\<open>Number(x.toFixed(2))\<close>: the nearest multiple of \<open>1/100\<close>, a tie going away from zero;
  \<^verbatim>\<open>Math.round\<close> is \<^const>\<open>round\<close>, the nearest integer with a tie going up.
\<close>

definition toFixed2 :: "real \<Rightarrow> real" where
  "toFixed2 x =
     (if x < 0 then - (real_of_int \<lfloor>(- x) * 100 + 1 / 2\<rfloor> / 100)
      else real_of_int \<lfloor>x * 100 + 1 / 2\<rfloor> / 100)"

text \<open>Lines 428-432: the reported result.\<close>

definition btResult :: "TradingConfig \<Rightarrow> BtState \<Rightarrow> BacktestResult" where
  "btResult config st =
     \<lparr>totalProfit = round (balance st),
      profitRate = toFixed2 ((balance st / initialInvestedCapital config) * 100),
      totalTrades = trades st, winCount = wins st, lossCount = losses st,
      maxDrawdown = toFixed2 (mdd st)\<rparr>"

text \<open>
  Lines 372-438. \<open>candles\<close> is what \<^verbatim>\<open>fetchDailyCandlesLong\<close> returned; without candles
  the function throws and reports no result.
\<close>

definition replay :: "TradingConfig \<Rightarrow> BtState \<Rightarrow> CandleData list \<Rightarrow> BtState" where
  "replay config st candles = foldl (processCandle config) st candles"

definition runBacktest :: "TradingConfig \<Rightarrow> CandleData list \<Rightarrow> BacktestError + BacktestResult" where
  "runBacktest config candles =
     (if candles = [] then Inl NoCandles
      else Inr (btResult config (replay config btInitial candles)))"

section \<open>Runs of the live engine\<close>

text \<open>
  The timer calls \<^verbatim>\<open>updateLoop\<close> once a second and the user clicks the start/stop
  button; with the configuration fixed for the run, the engine's history is a list of
  such events, each carrying what the exchange answered.
\<close>

datatype Event =
    Tick "TickerData option" OrderOutcome
  | Toggle "TickerData option" OrderOutcome

fun dispatch :: "TradingConfig \<Rightarrow> Engine \<Rightarrow> Event \<Rightarrow> Engine" where
  "dispatch conf e (Tick tk order) = updateLoop conf tk order e"
| "dispatch conf e (Toggle tk order) = handleToggleBot conf tk order e"

definition run :: "TradingConfig \<Rightarrow> Engine \<Rightarrow> Event list \<Rightarrow> Engine" where
  "run conf e evs = foldl (dispatch conf) e evs"

fun tickerOf :: "Event \<Rightarrow> TickerData option" where
  "tickerOf (Tick tk order) = tk"
| "tickerOf (Toggle tk order) = tk"

text \<open>The event is a tick on which the exit branch (lines 210-243) runs.\<close>

fun exitsOn :: "TradingConfig \<Rightarrow> Engine \<Rightarrow> Event \<Rightarrow> bool" where
  "exitsOn conf e (Tick (Some ticker) order) \<longleftrightarrow>
     \<not> isStarting e \<and> isActive (status e) \<and> exitCondition conf (status e) (price ticker)"
| "exitsOn conf e ev \<longleftrightarrow> False"

text \<open>The event is a click that stops a running bot (lines 358-369).\<close>

fun stopsOn :: "Engine \<Rightarrow> Event \<Rightarrow> bool" where
  "stopsOn e (Toggle tk order) \<longleftrightarrow> isActive (status e)"
| "stopsOn e ev \<longleftrightarrow> False"

text \<open>
  The buy order an event places and the exchange accepts, as (price, amount): the first buy
  of line 340 or the scale-in of line 249.
\<close>

fun bought :: "TradingConfig \<Rightarrow> Engine \<Rightarrow> Event \<Rightarrow> (real \<times> real) option" where
  "bought conf e (Toggle (Some ticker) OrderOk) =
     (if \<not> isActive (status e) \<and> accessKey conf \<noteq> [] \<and> secretKey conf \<noteq> []
      then Some (price ticker, initialBuyAmount conf) else None)"
| "bought conf e (Tick (Some ticker) OrderOk) =
     (if \<not> isStarting e \<and> isActive (status e) \<and>
         \<not> exitCondition conf (status e) (price ticker) \<and>
         scaleInCondition conf (status e) (price ticker)
      then Some (price ticker, currentBuyAmount conf (currentStep (status e) + 1)) else None)"
| "bought conf e ev = None"

text \<open>
  The fills of the position that is open after the events: an exit or a stop empties the
  list, an accepted buy is added at its end.
\<close>

fun fills :: "TradingConfig \<Rightarrow> Engine \<Rightarrow> (real \<times> real) list \<Rightarrow> Event list \<Rightarrow> (real \<times> real) list" where
  "fills conf e fs [] = fs"
| "fills conf e fs (ev # evs) =
     fills conf (dispatch conf e ev)
       (if exitsOn conf e ev \<or> stopsOn e ev then []
        else case bought conf e ev of None \<Rightarrow> fs | Some f \<Rightarrow> fs @ [f])
       evs"

text \<open>Money spent and quantity received over a list of fills (price, amount).\<close>

definition sumAmount :: "(real \<times> real) list \<Rightarrow> real" where
  "sumAmount fs = sum_list (map snd fs)"

definition sumQuantity :: "(real \<times> real) list \<Rightarrow> real" where
  "sumQuantity fs = sum_list (map (\<lambda>(p, a). a / p) fs)"

section \<open>Traces of the backtest\<close>

text \<open>The fills of the \<^verbatim>\<open>while\<close> loop of lines 406-418, in the order they are made.\<close>

function rungs :: "TradingConfig \<Rightarrow> real \<Rightarrow> BtState \<Rightarrow> (real \<times> real) list" where
  "rungs config l st =
     (if int (step st) < maxBuySteps config \<and> l \<le> nextBuyPrice config st
      then (nextBuyPrice config st, buyAmount config (step st + 1)) # rungs config l (fillRung config st)
      else [])"
  by pat_completeness auto
termination
  by (relation "measure (\<lambda>(config, l, st). nat (maxBuySteps config - int (step st)))")
     (auto simp: fillRung_def Let_def)

text \<open>The fills of the position that is open after the candle.\<close>

definition btFillsAfter :: "TradingConfig \<Rightarrow> BtState \<Rightarrow> (real \<times> real) list \<Rightarrow> CandleData \<Rightarrow> (real \<times> real) list" where
  "btFillsAfter config st fs candle =
     (if step st = 0 then [(cprice candle, initialInvestedCapital config)]
      else if candleLow candle \<le> slPrice config st then []
      else if candleHigh candle \<ge> tpPrice config st then []
      else fs @ rungs config (candleLow candle) st)"

fun btFills :: "TradingConfig \<Rightarrow> BtState \<Rightarrow> (real \<times> real) list \<Rightarrow> CandleData list \<Rightarrow> (real \<times> real) list" where
  "btFills config st fs [] = fs"
| "btFills config st fs (candle # candles) =
     btFills config (processCandle config st candle) (btFillsAfter config st fs candle) candles"

text \<open>The equity of line 422 after each candle of a replay.\<close>

fun equityTrace :: "TradingConfig \<Rightarrow> BtState \<Rightarrow> CandleData list \<Rightarrow> real list" where
  "equityTrace config st [] = []"
| "equityTrace config st (candle # candles) =
     currentEquity (trade config st candle) (cprice candle)
       # equityTrace config (processCandle config st candle) candles"

text \<open>
  The maximum drawdown in the specification's words: over a list of equities, keep the
  running peak \<open>pk\<close> and the largest value so far \<open>m\<close> of
  \<open>(peak - equity) / peak * 100\<close>, counted as \<open>0\<close> while the peak is not positive.
\<close>

fun specMaxDrawdown :: "real \<Rightarrow> real \<Rightarrow> real list \<Rightarrow> real" where
  "specMaxDrawdown pk m [] = m"
| "specMaxDrawdown pk m (equity # equities) =
     (let pk' = max pk equity;
          dd = (if pk' \<le> 0 then 0 else (pk' - equity) / pk' * 100)
      in specMaxDrawdown pk' (max m dd) equities)"

section \<open>Invariants\<close>

text \<open>
  What the step counter satisfies between two events: it is at least \<open>1\<close> while the
  position is active, \<open>0\<close> otherwise, and at most \<^verbatim>\<open>maxBuySteps\<close>.
\<close>

definition ladderInv :: "TradingConfig \<Rightarrow> Engine \<Rightarrow> bool" where
  "ladderInv conf e \<longleftrightarrow>
     (if isActive (status e) then 1 \<le> currentStep (status e) else currentStep (status e) = 0) \<and>
     int (currentStep (status e)) \<le> maxBuySteps conf"

text \<open>
  What the totals of an open position satisfy between two events, for the list \<open>fs\<close> of its
  fills: the list is not empty, prices and amounts are positive, the totals are the sums
  over the fills and the average price is their quotient. Without a position the list is
  empty. The same for the backtest.
\<close>

definition positiveFills :: "(real \<times> real) list \<Rightarrow> bool" where
  "positiveFills fs \<longleftrightarrow> fs \<noteq> [] \<and> list_all (\<lambda>(p, a). 0 < p \<and> 0 < a) fs"

definition ledgerInv :: "Engine \<Rightarrow> (real \<times> real) list \<Rightarrow> bool" where
  "ledgerInv e fs \<longleftrightarrow>
     (if isActive (status e)
      then positiveFills fs \<and>
           totalInvested (status e) = sumAmount fs \<and>
           totalQuantity (status e) = sumQuantity fs \<and>
           averagePrice (status e) = totalInvested (status e) / totalQuantity (status e)
      else fs = [])"

definition btLedgerInv :: "BtState \<Rightarrow> (real \<times> real) list \<Rightarrow> bool" where
  "btLedgerInv st fs \<longleftrightarrow>
     (if 0 < step st
      then positiveFills fs \<and>
           btTotalInvested st = sumAmount fs \<and>
           totalQty st = sumQuantity fs \<and>
           avgPrice st = btTotalInvested st / totalQty st
      else fs = [])"

section \<open>Example inputs\<close>

text \<open>The default configuration of lines 42-53, with API keys entered.\<close>

definition defaultConfig :: TradingConfig where
  "defaultConfig =
     \<lparr>accessKey = ''access'', secretKey = ''secret'', coin = ''KRW-BTC'', maxBuySteps = 10,
      buyInterval = 2, targetProfit = 3, stopLoss = 10, initialAmount = 1, premiumRate = 0,
      useProxy = True\<rparr>"

definition tickerAt :: "real \<Rightarrow> TickerData" where
  "tickerAt p = \<lparr>price = p, changeRate = 0\<rparr>"

text \<open>The engine after a first buy of 10000 at price 100 under \<^const>\<open>defaultConfig\<close>.\<close>

definition startedEngine :: Engine where
  "startedEngine = initialEngine\<lparr>status := startStatus defaultConfig (tickerAt 100)\<rparr>"

definition candleAt :: "real \<Rightarrow> real \<Rightarrow> real \<Rightarrow> CandleData" where
  "candleAt p h l = \<lparr>time = ''2024-01-01T09:00:00'', cprice = p, high = Some h, low = Some l\<rparr>"

text \<open>The backtest state after a position of 10000 was opened at price 100.\<close>

definition openBt :: BtState where
  "openBt = openPosition defaultConfig btInitial 100"

text \<open>Two daily candles: the position opened on the first is stopped out on the second.\<close>

definition lossCandles :: "CandleData list" where
  "lossCandles = [candleAt 100 100 100, candleAt 95 110 85]"

text \<open>
  Three daily candles on which the position is opened, held and closed at the take-profit
  price, and three on which the price rises and then dips without any order.
\<close>

definition winCandles :: "CandleData list" where
  "winCandles = [candleAt 100 100 100, candleAt 101 102 100, candleAt 104 105 102]"

definition dipCandles :: "CandleData list" where
  "dipCandles = [candleAt 100 100 100, candleAt 101 102 100, candleAt 99 100 99]"

text \<open>
  A start at price 100 followed by an accepted scale-in at price 97, and two candles on
  which the backtest opens at 100 and fills the next rung at 98.
\<close>

definition twoBuys :: "Event list" where
  "twoBuys = [Toggle (Some (tickerAt 100)) OrderOk, Tick (Some (tickerAt 97)) OrderOk]"

definition rungCandles :: "CandleData list" where
  "rungCandles = [candleAt 100 100 100, candleAt 97 99 97]"

text \<open>A start at price 100 followed by a tick at 103, which takes the profit.\<close>

definition startThenExit :: "Event list" where
  "startThenExit = [Toggle (Some (tickerAt 100)) OrderOk, Tick (Some (tickerAt 103)) OrderOk]"

declare scaleInLoop.simps [simp del] rungs.simps [simp del]

section \<open>Facts about single steps of the live engine\<close>

lemma updateLoop_exit:
  assumes "\<not> isStarting e" "isActive (status e)" "exitCondition conf (status e) (price ticker)"
  shows "status (updateLoop conf (Some ticker) order e) = exitStatus (status e) ticker"
    and "tradeHistory (updateLoop conf (Some ticker) order e) =
           exitRecord conf (status e) (price ticker) # tradeHistory e"
  using assms by (simp_all add: updateLoop_def Let_def split: OrderOutcome.splits)

lemma updateLoop_scale_failed:
  assumes "\<not> isStarting e" "isActive (status e)"
    "\<not> exitCondition conf (status e) (price ticker)"
    "scaleInCondition conf (status e) (price ticker)"
  shows "updateLoop conf (Some ticker) (OrderFailed m) e =
           e\<lparr>isNetworkError := False, console := console e @ [''Scaling buy order failed'']\<rparr>"
  using assms by (simp add: updateLoop_def Let_def)

lemma updateLoop_scale_ok:
  assumes "\<not> isStarting e" "isActive (status e)"
    "\<not> exitCondition conf (status e) (price ticker)"
    "scaleInCondition conf (status e) (price ticker)"
  shows "updateLoop conf (Some ticker) OrderOk e =
           e\<lparr>isNetworkError := False, status := scaleInStatus conf (status e) ticker\<rparr>"
  using assms by (simp add: updateLoop_def Let_def)

lemma handleToggleBot_start:
  assumes "\<not> isActive (status e)" "accessKey conf \<noteq> []" "secretKey conf \<noteq> []"
  shows "handleToggleBot conf (Some ticker) OrderOk e =
           e\<lparr>status := startStatus conf ticker, isStarting := False\<rparr>"
  using assms by (simp add: handleToggleBot_def)

lemma exitsOn_inactive: "\<not> isActive (status e) \<Longrightarrow> \<not> exitsOn conf e ev"
  by (cases "(conf, e, ev)" rule: exitsOn.cases) simp_all

lemma status_updateLoop:
  "status (updateLoop conf tk order e) =
     (if isStarting e then status e
      else case tk of
        None \<Rightarrow> status e
      | Some ticker \<Rightarrow>
          if isActive (status e) then
            if exitCondition conf (status e) (price ticker) then exitStatus (status e) ticker
            else if scaleInCondition conf (status e) (price ticker) then
              (case order of OrderOk \<Rightarrow> scaleInStatus conf (status e) ticker
               | OrderFailed m \<Rightarrow> status e)
            else (status e)\<lparr>currentPrice := price ticker, currentChangeRate := changeRate ticker,
                   pnlPercentage := pnl (status e) (price ticker)\<rparr>
          else (status e)\<lparr>currentPrice := price ticker, currentChangeRate := changeRate ticker\<rparr>)"
  by (simp add: updateLoop_def Let_def split: option.splits OrderOutcome.splits)

lemma status_handleToggleBot:
  "status (handleToggleBot conf tk order e) =
     (if \<not> isActive (status e) then
        if accessKey conf = [] \<or> secretKey conf = [] then status e
        else (case tk of None \<Rightarrow> status e
              | Some ticker \<Rightarrow> (case order of OrderFailed m \<Rightarrow> status e
                                | OrderOk \<Rightarrow> startStatus conf ticker))
      else stopStatus (status e))"
  by (simp add: handleToggleBot_def split: option.splits OrderOutcome.splits)

lemma exitStatus_fields [simp]:
  "isActive (exitStatus s ticker) = False" "currentStep (exitStatus s ticker) = 0"
  by (simp_all add: exitStatus_def)

lemma stopStatus_fields [simp]:
  "isActive (stopStatus s) = False" "currentStep (stopStatus s) = 0"
  by (simp_all add: stopStatus_def)

lemma startStatus_fields [simp]:
  "isActive (startStatus conf ticker) = True" "currentStep (startStatus conf ticker) = 1"
  by (simp_all add: startStatus_def)

lemma scaleInStatus_fields [simp]:
  "isActive (scaleInStatus conf s ticker) = isActive s"
  "currentStep (scaleInStatus conf s ticker) = currentStep s + 1"
  by (simp_all add: scaleInStatus_def Let_def)

lemma started_status:
  "status startedEngine = \<lparr>isActive = True, currentStep = 1, averagePrice = 100,
      totalQuantity = 100, totalInvested = 10000, currentPrice = 100,
      pnlPercentage = 0, currentChangeRate = 0, lastBuyPrice = 100\<rparr>"
  by (simp add: startedEngine_def startStatus_def defaultConfig_def tickerAt_def initialBuyAmount_def)

lemma started_misc [simp]:
  "isStarting startedEngine = False" "tradeHistory startedEngine = []"
  "console startedEngine = []" "alerts startedEngine = []" "isNetworkError startedEngine = False"
  by (simp_all add: startedEngine_def initialEngine_def)

lemma started_fields [simp]:
  "isActive (status startedEngine)" "currentStep (status startedEngine) = 1"
  "averagePrice (status startedEngine) = 100" "lastBuyPrice (status startedEngine) = 100"
  "totalInvested (status startedEngine) = 10000" "totalQuantity (status startedEngine) = 100"
  by (simp_all add: started_status)

lemma started_pnl [simp]: "pnl (status startedEngine) p = p - 100"
  by (simp add: pnl_def js_or_def)

lemma defaultConfig_fields [simp]:
  "maxBuySteps defaultConfig = 10" "buyInterval defaultConfig = 2" "targetProfit defaultConfig = 3"
  "stopLoss defaultConfig = 10" "initialAmount defaultConfig = 1" "premiumRate defaultConfig = 0"
  "accessKey defaultConfig = ''access''" "secretKey defaultConfig = ''secret''"
  "coin defaultConfig = ''KRW-BTC''"
  by (simp_all add: defaultConfig_def)

lemma tickerAt_fields [simp]: "price (tickerAt p) = p" "changeRate (tickerAt p) = 0"
  by (simp_all add: tickerAt_def)

lemma candleAt_fields [simp]:
  "cprice (candleAt p h l) = p" "high (candleAt p h l) = Some h" "low (candleAt p h l) = Some l"
  by (simp_all add: candleAt_def)

lemma openBt_fields [simp]:
  "step openBt = 1" "avgPrice openBt = 100" "totalQty openBt = 100"
  "btTotalInvested openBt = 10000" "balance openBt = 0" "wins openBt = 0" "losses openBt = 0"
  "trades openBt = 0" "btLastBuyPrice openBt = 100" "peak openBt = 0" "mdd openBt = 0"
  by (simp_all add: openBt_def openPosition_def btInitial_def initialInvestedCapital_def)

lemma replay_lossCandles:
  "replay defaultConfig btInitial lossCandles =
     \<lparr>balance = - 1000, step = 0, totalQty = 0, avgPrice = 100, btLastBuyPrice = 100, trades = 1,
      wins = 0, losses = 1, btTotalInvested = 0, peak = 0, mdd = 0\<rparr>"
  by (simp add: replay_def lossCandles_def processCandle_def trade_def track_def Let_def
      openPosition_def closeLoss_def slPrice_def currentEquity_def drawdown_def btInitial_def
      candleLow_def candleHigh_def js_or_def initialInvestedCapital_def)

lemma runBacktest_lossCandles:
  "runBacktest defaultConfig lossCandles =
     Inr \<lparr>totalProfit = - 1000, profitRate = - 10, totalTrades = 1, winCount = 0, lossCount = 1,
          maxDrawdown = 0\<rparr>"
  unfolding runBacktest_def replay_lossCandles
  by (simp add: lossCandles_def btResult_def initialInvestedCapital_def toFixed2_def)

section \<open>Exits of the live engine\<close>

text \<open>
  Claim C4: on a tick of an active position, at a positive price, on which both exit
  conditions hold (the percentage is at least \<^verbatim>\<open>targetProfit\<close> and at most \<^verbatim>\<open>-stopLoss\<close>,
  equality included), the trade is recorded as \<open>PROFIT\<close>, not \<open>LOSS\<close>.
\<close>

theorem profit_wins_ties:
  assumes "0 < price ticker" and "\<not> isStarting e" and "isActive (status e)"
    and "pnl (status e) (price ticker) \<ge> targetProfit conf"
    and "pnl (status e) (price ticker) \<le> - stopLoss conf"
  shows "tradeHistory (updateLoop conf (Some ticker) order e) =
           exitRecord conf (status e) (price ticker) # tradeHistory e \<and>
         exitType (exitRecord conf (status e) (price ticker)) = PROFIT"
  using assms updateLoop_exit(2) [of e conf ticker order]
  by (simp add: exitCondition_def exitRecord_def exitTypeOf_def)

theorem profit_wins_ties_witness:
  "pnl (status startedEngine) (price (tickerAt 100))
     \<ge> targetProfit (defaultConfig\<lparr>targetProfit := 0, stopLoss := 0\<rparr>) \<and>
   pnl (status startedEngine) (price (tickerAt 100))
     \<le> - stopLoss (defaultConfig\<lparr>targetProfit := 0, stopLoss := 0\<rparr>) \<and>
   map exitType (tradeHistory (updateLoop (defaultConfig\<lparr>targetProfit := 0, stopLoss := 0\<rparr>)
      (Some (tickerAt 100)) OrderOk startedEngine)) = [PROFIT]"
proof -
  let ?c = "defaultConfig\<lparr>targetProfit := 0, stopLoss := 0\<rparr>"
  have h: "0 < price (tickerAt 100)"
    "\<not> isStarting startedEngine" "isActive (status startedEngine)"
    "pnl (status startedEngine) (price (tickerAt 100)) \<ge> targetProfit ?c"
    "pnl (status startedEngine) (price (tickerAt 100)) \<le> - stopLoss ?c"
    by (simp_all add: defaultConfig_def tickerAt_def)
  show ?thesis
    using h profit_wins_ties [OF h, of OrderOk] by simp
qed

text \<open>
  Claim C6: when an exit condition holds on a tick of an active position, at a positive
  price, the trade record is added to the history (as its newest, first entry) and the
  position is reset to inactive with \<^verbatim>\<open>currentStep\<close>, \<^verbatim>\<open>averagePrice\<close>,
  \<^verbatim>\<open>totalQuantity\<close>, \<^verbatim>\<open>totalInvested\<close> and \<^verbatim>\<open>lastBuyPrice\<close> zero, whatever the outcome
  \<open>order\<close> of the market sell order is; no later event \<open>ev\<close> exits that position again.
\<close>

theorem exit_resets_position:
  assumes pos: "0 < price ticker"
    and ex: "\<not> isStarting e" "isActive (status e)"
      "exitCondition conf (status e) (price ticker)"
  shows "tradeHistory (updateLoop conf (Some ticker) order e) =
           exitRecord conf (status e) (price ticker) # tradeHistory e \<and>
         \<not> isActive (status (updateLoop conf (Some ticker) order e)) \<and>
         currentStep (status (updateLoop conf (Some ticker) order e)) = 0 \<and>
         averagePrice (status (updateLoop conf (Some ticker) order e)) = 0 \<and>
         totalQuantity (status (updateLoop conf (Some ticker) order e)) = 0 \<and>
         totalInvested (status (updateLoop conf (Some ticker) order e)) = 0 \<and>
         lastBuyPrice (status (updateLoop conf (Some ticker) order e)) = 0 \<and>
         status (updateLoop conf (Some ticker) order e) = exitStatus (status e) ticker \<and>
         \<not> exitsOn conf (updateLoop conf (Some ticker) order e) ev"
proof -
  have "\<not> isActive (status (updateLoop conf (Some ticker) order e))"
    using updateLoop_exit(1) [OF ex] by simp
  from exitsOn_inactive [OF this] updateLoop_exit [OF ex] show ?thesis
    by (simp add: exitStatus_def)
qed

theorem exit_resets_position_witness:
  "exitCondition defaultConfig (status startedEngine) (price (tickerAt 85)) \<and>
   map exitType (tradeHistory (updateLoop defaultConfig (Some (tickerAt 85))
      (OrderFailed ''under_min_total_ask'') startedEngine)) = [LOSS] \<and>
   \<not> isActive (status (updateLoop defaultConfig (Some (tickerAt 85))
      (OrderFailed ''under_min_total_ask'') startedEngine)) \<and>
   totalQuantity (status (updateLoop defaultConfig (Some (tickerAt 85))
      (OrderFailed ''under_min_total_ask'') startedEngine)) = 0"
proof -
  have h: "0 < price (tickerAt 85)"
    "\<not> isStarting startedEngine" "isActive (status startedEngine)"
    "exitCondition defaultConfig (status startedEngine) (price (tickerAt 85))"
    by (simp_all add: exitCondition_def)
  show ?thesis
    using h exit_resets_position [OF h, of "OrderFailed ''under_min_total_ask''"]
    by (simp add: exitRecord_def exitTypeOf_def exitStatus_def)
qed

section \<open>A scale-in whose order fails\<close>

text \<open>
  Claim C7 says that a failed scale-in order leaves the position untouched and that the
  error is surfaced to the caller. The \<^verbatim>\<open>catch\<close> of lines 266-268 only calls
  \<^verbatim>\<open>console.error\<close>: the run of \<^verbatim>\<open>updateLoop\<close> completes normally, and its result is the
  state before the tick plus one fixed console line. Nothing is shown with \<^verbatim>\<open>alert\<close>, no
  error flag is set, and the exchange's message is dropped.
\<close>

theorem failed_scale_in_counterexample:
  "updateLoop defaultConfig (Some (tickerAt 97)) (OrderFailed ''insufficient_funds_bid'') startedEngine =
     startedEngine\<lparr>console := [''Scaling buy order failed'']\<rparr> \<and>
   alerts (updateLoop defaultConfig (Some (tickerAt 97)) (OrderFailed ''insufficient_funds_bid'')
     startedEngine) = [] \<and>
   \<not> isNetworkError (updateLoop defaultConfig (Some (tickerAt 97))
     (OrderFailed ''insufficient_funds_bid'') startedEngine)"
proof -
  have h: "\<not> isStarting startedEngine" "isActive (status startedEngine)"
    "\<not> exitCondition defaultConfig (status startedEngine) (price (tickerAt 97))"
    "scaleInCondition defaultConfig (status startedEngine) (price (tickerAt 97))"
    by (simp_all add: exitCondition_def scaleInCondition_def)
  have "startedEngine\<lparr>isNetworkError := False\<rparr> = startedEngine"
    by (simp add: startedEngine_def initialEngine_def)
  then show ?thesis
    using updateLoop_scale_failed [OF h, of "''insufficient_funds_bid''"]
    by simp
qed

text \<open>
  Claim C7 as amended: on a tick, at a positive price, on which a scale-in is attempted
  and the buy order fails, the position state is left completely unchanged and stays
  active, the trade history is unchanged, and the error is caught and only logged with
  \<^verbatim>\<open>console.error\<close> (no alert, no error flag); the same tick conditions hold again in the
  resulting state, so the next tick at that price retries the scale-in, and applies it
  when its order goes through.
\<close>

theorem failed_scale_in_keeps_state:
  assumes pos: "0 < price ticker"
    and sc: "\<not> isStarting e" "isActive (status e)"
      "\<not> exitCondition conf (status e) (price ticker)"
      "scaleInCondition conf (status e) (price ticker)"
  shows "status (updateLoop conf (Some ticker) (OrderFailed m) e) = status e \<and>
         isActive (status (updateLoop conf (Some ticker) (OrderFailed m) e)) \<and>
         tradeHistory (updateLoop conf (Some ticker) (OrderFailed m) e) = tradeHistory e \<and>
         alerts (updateLoop conf (Some ticker) (OrderFailed m) e) = alerts e \<and>
         \<not> isNetworkError (updateLoop conf (Some ticker) (OrderFailed m) e) \<and>
         console (updateLoop conf (Some ticker) (OrderFailed m) e) =
           console e @ [''Scaling buy order failed''] \<and>
         \<not> isStarting (updateLoop conf (Some ticker) (OrderFailed m) e) \<and>
         \<not> exitCondition conf (status (updateLoop conf (Some ticker) (OrderFailed m) e))
             (price ticker) \<and>
         scaleInCondition conf (status (updateLoop conf (Some ticker) (OrderFailed m) e))
           (price ticker) \<and>
         status (updateLoop conf (Some ticker) OrderOk
                   (updateLoop conf (Some ticker) (OrderFailed m) e)) =
           status (updateLoop conf (Some ticker) OrderOk e) \<and>
         currentStep (status (updateLoop conf (Some ticker) OrderOk
                   (updateLoop conf (Some ticker) (OrderFailed m) e))) =
           currentStep (status e) + 1"
  using sc updateLoop_scale_failed [OF sc, of m]
  by (simp add: status_updateLoop)

theorem failed_scale_in_keeps_state_witness:
  "\<not> exitCondition defaultConfig (status startedEngine) (price (tickerAt 97)) \<and>
   scaleInCondition defaultConfig (status startedEngine) (price (tickerAt 97)) \<and>
   status (updateLoop defaultConfig (Some (tickerAt 97)) (OrderFailed ''timeout'') startedEngine) =
     status startedEngine \<and>
   console (updateLoop defaultConfig (Some (tickerAt 97)) (OrderFailed ''timeout'') startedEngine) =
     [''Scaling buy order failed'']"
proof -
  have h: "0 < price (tickerAt 97)"
    "\<not> isStarting startedEngine" "isActive (status startedEngine)"
    "\<not> exitCondition defaultConfig (status startedEngine) (price (tickerAt 97))"
    "scaleInCondition defaultConfig (status startedEngine) (price (tickerAt 97))"
    by (simp_all add: exitCondition_def scaleInCondition_def)
  show ?thesis
    using h failed_scale_in_keeps_state [OF h, of "''timeout''"] by simp
qed

section \<open>Exits of the backtest\<close>

text \<open>
  Claim C5: for a candle processed while a position is open, the stop-loss test
  \<open>low \<le> avgPrice * (1 - stopLoss / 100)\<close> comes first: when it holds the trade is closed
  as a loss at the stop-loss price and no win is counted, whatever the candle's high is,
  so also when the high reaches the take-profit price
  \<open>avgPrice * (1 + targetProfit / 100)\<close>.
\<close>

theorem stop_loss_before_take_profit:
  assumes "step st \<noteq> 0" and "candleLow candle \<le> slPrice config st"
  shows "trade config st candle = closeLoss config st \<and>
         step (trade config st candle) = 0 \<and>
         trades (trade config st candle) = trades st + 1 \<and>
         losses (trade config st candle) = losses st + 1 \<and>
         wins (trade config st candle) = wins st \<and>
         balance (trade config st candle) =
           balance st + (totalQty st * (avgPrice st * (1 - stopLoss config / 100))
                         - btTotalInvested st)"
  using assms by (simp add: trade_def closeLoss_def slPrice_def)

theorem stop_loss_before_take_profit_witness:
  "step openBt \<noteq> 0 \<and>
   candleLow (candleAt 95 110 85) \<le> slPrice defaultConfig openBt \<and>
   candleHigh (candleAt 95 110 85) \<ge> tpPrice defaultConfig openBt \<and>
   losses (trade defaultConfig openBt (candleAt 95 110 85)) = 1 \<and>
   wins (trade defaultConfig openBt (candleAt 95 110 85)) = 0 \<and>
   balance (trade defaultConfig openBt (candleAt 95 110 85)) = - 1000"
proof -
  have h: "step openBt \<noteq> 0" "candleLow (candleAt 95 110 85) \<le> slPrice defaultConfig openBt"
    by (simp_all add: candleLow_def js_or_def slPrice_def)
  have t: "candleHigh (candleAt 95 110 85) \<ge> tpPrice defaultConfig openBt"
    by (simp add: candleHigh_def js_or_def tpPrice_def)
  show ?thesis
    using h t stop_loss_before_take_profit [OF h] by (simp add: closeLoss_def slPrice_def)
qed

section \<open>Buy amounts\<close>

lemma currentBuyAmount_mono:
  assumes "0 \<le> premiumRate conf" "0 \<le> initialAmount conf" "m \<le> n"
  shows "currentBuyAmount conf m \<le> currentBuyAmount conf n"
proof -
  have "(1 + premiumRate conf / 100) ^ (m - 1) \<le> (1 + premiumRate conf / 100) ^ (n - 1)"
    using assms by (intro power_increasing) auto
  then show ?thesis
    using assms by (simp add: currentBuyAmount_def mult_left_mono)
qed

text \<open>
  Claim C2 says that the buy for step \<open>n\<close> is
  \<open>initialAmount * (1 + premiumRate / 100) ^ (n - 1)\<close>, so that \<^verbatim>\<open>initialAmount = 10000\<close> and
  \<^verbatim>\<open>premiumRate = 10\<close> give \<open>12100\<close> at step 3. The code multiplies the configured
  \<^verbatim>\<open>initialAmount\<close> by \<open>10000\<close> first (the form field's unit is ten thousand won): with
  these settings the first buy is \<open>100000000\<close> and the buy for step 3 is \<open>121000000\<close>
  (in exact arithmetic), in the live engine and in the backtest.
\<close>

theorem buy_amount_formula_counterexample:
  "currentBuyAmount (defaultConfig\<lparr>initialAmount := 10000, premiumRate := 10\<rparr>) 3 = 121000000 \<and>
   buyAmount (defaultConfig\<lparr>initialAmount := 10000, premiumRate := 10\<rparr>) 3 = 121000000 \<and>
   initialBuyAmount (defaultConfig\<lparr>initialAmount := 10000, premiumRate := 10\<rparr>) = 100000000"
  by (simp add: currentBuyAmount_def buyAmount_def initialInvestedCapital_def initialBuyAmount_def
      eval_nat_numeral)

text \<open>
  Claim C2 as amended: for every step \<open>n \<ge> 1\<close> the buy amount for step \<open>n\<close> is
  \<open>initialAmount * 10000 * (1 + premiumRate / 100) ^ (n - 1)\<close>, the same in the live engine
  and in the backtest; step 1 uses \<open>initialAmount * 10000\<close> unscaled, which is the amount of
  the first buy; the amounts are non-decreasing in \<open>n\<close> whenever \<^verbatim>\<open>premiumRate\<close> and
  \<^verbatim>\<open>initialAmount\<close> are not negative; and \<^verbatim>\<open>initialAmount = 1\<close> with \<^verbatim>\<open>premiumRate = 10\<close>
  gives \<open>12100\<close> at step 3.
\<close>

theorem buy_amount_ladder:
  "(1 \<le> n \<longrightarrow>
      currentBuyAmount conf n =
        initialAmount conf * 10000 * (1 + premiumRate conf / 100) ^ (n - 1) \<and>
      buyAmount conf n = currentBuyAmount conf n) \<and>
   currentBuyAmount conf 1 = initialAmount conf * 10000 \<and>
   initialBuyAmount conf = currentBuyAmount conf 1 \<and>
   initialInvestedCapital conf = buyAmount conf 1 \<and>
   (0 \<le> premiumRate conf \<and> 0 \<le> initialAmount conf \<and> 1 \<le> m \<and> m \<le> n \<longrightarrow>
      currentBuyAmount conf m \<le> currentBuyAmount conf n) \<and>
   (initialAmount conf = 1 \<and> premiumRate conf = 10 \<longrightarrow> currentBuyAmount conf 3 = 12100)"
proof -
  have "initialAmount conf = 1 \<and> premiumRate conf = 10 \<longrightarrow> currentBuyAmount conf 3 = 12100"
    by (simp add: currentBuyAmount_def eval_nat_numeral)
  moreover have "0 \<le> premiumRate conf \<and> 0 \<le> initialAmount conf \<and> 1 \<le> m \<and> m \<le> n \<longrightarrow>
      currentBuyAmount conf m \<le> currentBuyAmount conf n"
    using currentBuyAmount_mono by blast
  ultimately show ?thesis
    by (simp add: currentBuyAmount_def buyAmount_def initialInvestedCapital_def initialBuyAmount_def)
qed

theorem buy_amount_ladder_witness:
  "currentBuyAmount (defaultConfig\<lparr>premiumRate := 10\<rparr>) 3 = 12100 \<and>
   initialBuyAmount (defaultConfig\<lparr>premiumRate := 10\<rparr>) = 10000 \<and>
   currentBuyAmount (defaultConfig\<lparr>premiumRate := 10\<rparr>) 2
     \<le> currentBuyAmount (defaultConfig\<lparr>premiumRate := 10\<rparr>) 3"
  using buy_amount_ladder [of 3 "defaultConfig\<lparr>premiumRate := 10\<rparr>" 2]
  by simp

text \<open>
  Claim C10: every buy amount derives from \<open>initialAmount * 10000\<close>. The first buy of the
  live engine invests \<open>initialAmount * 10000\<close>; an accepted live scale-in that takes the
  position to step \<open>n\<close> adds \<open>initialAmount * 10000 * (1 + premiumRate / 100) ^ (n - 1)\<close>; the
  backtest opens a position with \<open>initialAmount * 10000\<close>, its scale-in to step \<open>n\<close> adds the
  same amount as the live one, and the reported \<^verbatim>\<open>profitRate\<close> is the banked balance as a
  percentage of \<open>initialAmount * 10000\<close>, rounded to two decimals.
\<close>

theorem amounts_in_units_of_10000:
  "(\<not> isActive (status e) \<and> accessKey conf \<noteq> [] \<and> secretKey conf \<noteq> [] \<longrightarrow>
      totalInvested (status (handleToggleBot conf (Some ticker) OrderOk e)) =
        initialAmount conf * 10000) \<and>
   (0 < price ticker \<and> \<not> isStarting e \<and> isActive (status e) \<and>
    \<not> exitCondition conf (status e) (price ticker) \<and>
    scaleInCondition conf (status e) (price ticker) \<longrightarrow>
      totalInvested (status (updateLoop conf (Some ticker) OrderOk e)) =
        totalInvested (status e) +
        initialAmount conf * 10000 * (1 + premiumRate conf / 100)
          ^ (currentStep (status (updateLoop conf (Some ticker) OrderOk e)) - 1)) \<and>
   (step st = 0 \<longrightarrow> btTotalInvested (trade conf st candle) = initialAmount conf * 10000) \<and>
   (step st \<noteq> 0 \<and> \<not> candleLow candle \<le> slPrice conf st \<and>
    \<not> candleHigh candle \<ge> tpPrice conf st \<and>
    int (step st) < maxBuySteps conf \<and> candleLow candle \<le> nextBuyPrice conf st \<longrightarrow>
      trade conf st candle = scaleInLoop conf (candleLow candle) (fillRung conf st) \<and>
      btTotalInvested (fillRung conf st) =
        btTotalInvested st +
        initialAmount conf * 10000 * (1 + premiumRate conf / 100) ^ (step (fillRung conf st) - 1)) \<and>
   (runBacktest conf candles = Inr r \<longrightarrow>
      profitRate r =
        toFixed2 (balance (replay conf btInitial candles) / (initialAmount conf * 10000) * 100))"
proof -
  have a: "\<not> isActive (status e) \<and> accessKey conf \<noteq> [] \<and> secretKey conf \<noteq> [] \<longrightarrow>
      totalInvested (status (handleToggleBot conf (Some ticker) OrderOk e)) =
        initialAmount conf * 10000"
    by (simp add: handleToggleBot_start startStatus_def initialBuyAmount_def)
  have b: "0 < price ticker \<and> \<not> isStarting e \<and> isActive (status e) \<and>
      \<not> exitCondition conf (status e) (price ticker) \<and>
      scaleInCondition conf (status e) (price ticker) \<longrightarrow>
      totalInvested (status (updateLoop conf (Some ticker) OrderOk e)) =
        totalInvested (status e) +
        initialAmount conf * 10000 * (1 + premiumRate conf / 100)
          ^ (currentStep (status (updateLoop conf (Some ticker) OrderOk e)) - 1)"
    by (simp add: updateLoop_scale_ok scaleInStatus_def Let_def currentBuyAmount_def)
  have c: "step st = 0 \<longrightarrow> btTotalInvested (trade conf st candle) = initialAmount conf * 10000"
    by (simp add: trade_def openPosition_def initialInvestedCapital_def)
  have d: "step st \<noteq> 0 \<and> \<not> candleLow candle \<le> slPrice conf st \<and>
      \<not> candleHigh candle \<ge> tpPrice conf st \<and>
      int (step st) < maxBuySteps conf \<and> candleLow candle \<le> nextBuyPrice conf st \<longrightarrow>
      trade conf st candle = scaleInLoop conf (candleLow candle) (fillRung conf st) \<and>
      btTotalInvested (fillRung conf st) =
        btTotalInvested st +
        initialAmount conf * 10000 * (1 + premiumRate conf / 100) ^ (step (fillRung conf st) - 1)"
    by (simp add: trade_def fillRung_def Let_def buyAmount_def initialInvestedCapital_def
        scaleInLoop.simps [of conf "candleLow candle" st])
  have e: "runBacktest conf candles = Inr r \<longrightarrow>
      profitRate r =
        toFixed2 (balance (replay conf btInitial candles) / (initialAmount conf * 10000) * 100)"
    by (auto simp add: runBacktest_def btResult_def initialInvestedCapital_def split: if_splits)
  from a b c d e show ?thesis by blast
qed

theorem amounts_in_units_of_10000_witness:
  "totalInvested (status (handleToggleBot defaultConfig (Some (tickerAt 100)) OrderOk initialEngine))
     = 10000 \<and>
   totalInvested (status (updateLoop defaultConfig (Some (tickerAt 97)) OrderOk startedEngine))
     = 20000 \<and>
   btTotalInvested (trade defaultConfig btInitial (candleAt 100 100 100)) = 10000 \<and>
   btTotalInvested (fillRung defaultConfig openBt) = 20000 \<and>
   runBacktest defaultConfig lossCandles =
     Inr \<lparr>totalProfit = - 1000, profitRate = - 10, totalTrades = 1, winCount = 0, lossCount = 1,
          maxDrawdown = 0\<rparr> \<and>
   balance (replay defaultConfig btInitial lossCandles) = - 1000"
proof -
  let ?r = "\<lparr>totalProfit = - 1000, profitRate = - 10, totalTrades = 1, winCount = 0,
             lossCount = 1, maxDrawdown = 0\<rparr>"
  have a: "\<not> isActive (status initialEngine) \<and> accessKey defaultConfig \<noteq> [] \<and>
           secretKey defaultConfig \<noteq> []"
    by (simp add: initialEngine_def initialStatus_def)
  have b: "0 < price (tickerAt 97) \<and>
           \<not> isStarting startedEngine \<and> isActive (status startedEngine) \<and>
           \<not> exitCondition defaultConfig (status startedEngine) (price (tickerAt 97)) \<and>
           scaleInCondition defaultConfig (status startedEngine) (price (tickerAt 97))"
    by (simp add: exitCondition_def scaleInCondition_def)
  have c: "step btInitial = 0"
    by (simp add: btInitial_def)
  have d: "step openBt \<noteq> 0 \<and> \<not> candleLow (candleAt 97 99 97) \<le> slPrice defaultConfig openBt \<and>
           \<not> candleHigh (candleAt 97 99 97) \<ge> tpPrice defaultConfig openBt \<and>
           int (step openBt) < maxBuySteps defaultConfig \<and>
           candleLow (candleAt 97 99 97) \<le> nextBuyPrice defaultConfig openBt"
    by (simp add: candleLow_def candleHigh_def js_or_def slPrice_def tpPrice_def nextBuyPrice_def)
  have s: "currentStep (status (updateLoop defaultConfig (Some (tickerAt 97)) OrderOk startedEngine)) = 2"
    using b by (simp add: updateLoop_scale_ok scaleInStatus_def Let_def)
  have f: "step (fillRung defaultConfig openBt) = 2"
    by (simp add: fillRung_def Let_def)
  note t1 = amounts_in_units_of_10000 [of initialEngine defaultConfig "tickerAt 100" btInitial
      "candleAt 100 100 100" lossCandles ?r]
  note t2 = amounts_in_units_of_10000 [of startedEngine defaultConfig "tickerAt 97" openBt
      "candleAt 97 99 97" lossCandles ?r]
  show ?thesis
    using a b c d t1 t2 runBacktest_lossCandles replay_lossCandles
    by (simp add: s f)
qed

section \<open>The maximum drawdown of the backtest\<close>

lemma fillRung_keeps [simp]:
  "peak (fillRung config st) = peak st" "mdd (fillRung config st) = mdd st"
  "balance (fillRung config st) = balance st" "step (fillRung config st) = step st + 1"
  by (simp_all add: fillRung_def Let_def)

lemma scaleInLoop_keeps:
  "peak (scaleInLoop config l st) = peak st \<and> mdd (scaleInLoop config l st) = mdd st \<and>
   balance (scaleInLoop config l st) = balance st"
proof (induction config l st rule: scaleInLoop.induct)
  case (1 config l st)
  then show ?case
    by (subst (1 2 3) scaleInLoop.simps) simp
qed

lemma trade_keeps [simp]:
  "peak (trade config st candle) = peak st" "mdd (trade config st candle) = mdd st"
  by (simp_all add: trade_def openPosition_def closeLoss_def closeWin_def scaleInLoop_keeps)

lemma equity_track [simp]: "currentEquity (track st p) q = currentEquity st q"
  by (simp add: currentEquity_def track_def Let_def)

lemma track_mdd:
  "mdd (track st p) = max (mdd st) (drawdown (max (peak st) (currentEquity st p)) (currentEquity st p))"
  "peak (track st p) = max (peak st) (currentEquity st p)"
  by (auto simp add: track_def Let_def max_def)

lemma replay_Cons [simp]:
  "replay config st (candle # candles) = replay config (processCandle config st candle) candles"
  "replay config st [] = st"
  by (simp_all add: replay_def)

lemma replay_spec:
  "mdd (replay config st candles) =
     specMaxDrawdown (peak st) (mdd st) (equityTrace config st candles)"
proof (induction candles arbitrary: st)
  case Nil
  then show ?case by simp
next
  case (Cons candle candles)
  show ?case
    by (simp add: Cons.IH processCandle_def track_mdd drawdown_def Let_def)
qed

lemma specMaxDrawdown_ge: "m \<le> specMaxDrawdown pk m equities"
proof (induction equities arbitrary: pk m)
  case Nil
  then show ?case by simp
next
  case (Cons equity equities)
  have "m \<le> max m (if max pk equity \<le> 0 then 0 else (max pk equity - equity) / max pk equity * 100)"
    by simp
  also have "\<dots> \<le> specMaxDrawdown (max pk equity)
      (max m (if max pk equity \<le> 0 then 0 else (max pk equity - equity) / max pk equity * 100)) equities"
    by (rule Cons.IH)
  finally show ?case by (simp add: Let_def)
qed

lemma specMaxDrawdown_sorted:
  assumes "sorted equities" "pk \<le> 0 \<or> (\<forall>x\<in>set equities. pk \<le> x)"
  shows "specMaxDrawdown pk 0 equities = 0"
  using assms
proof (induction equities arbitrary: pk)
  case Nil
  then show ?case by simp
next
  case (Cons equity equities)
  let ?pk = "max pk equity"
  have dd: "(if ?pk \<le> 0 then 0 else (?pk - equity) / ?pk * 100) = 0"
    using Cons.prems(2) by (auto simp: max_def)
  have nxt: "?pk \<le> 0 \<or> (\<forall>x\<in>set equities. ?pk \<le> x)"
    using Cons.prems by (auto simp: max_def)
  have "sorted equities" using Cons.prems(1) by simp
  from Cons.IH [OF this nxt] have "specMaxDrawdown ?pk 0 equities = 0" .
  moreover have "specMaxDrawdown pk 0 (equity # equities) =
      specMaxDrawdown ?pk (max 0 (if ?pk \<le> 0 then 0 else (?pk - equity) / ?pk * 100)) equities"
    by (simp only: specMaxDrawdown.simps Let_def)
  ultimately show ?case
    by (simp only: dd max.idem)
qed

lemma toFixed2_nonneg: "0 \<le> x \<Longrightarrow> 0 \<le> toFixed2 x"
  by (simp add: toFixed2_def)

lemma toFixed2_zero: "toFixed2 0 = 0"
  by (simp add: toFixed2_def)

lemma replay_winCandles:
  "replay defaultConfig btInitial winCandles =
     \<lparr>balance = 300, step = 0, totalQty = 0, avgPrice = 100, btLastBuyPrice = 100, trades = 1,
      wins = 1, losses = 0, btTotalInvested = 0, peak = 300, mdd = 0\<rparr>"
  by (simp add: winCandles_def processCandle_def trade_def track_def Let_def
      openPosition_def closeWin_def slPrice_def tpPrice_def currentEquity_def drawdown_def
      btInitial_def nextBuyPrice_def scaleInLoop.simps
      candleLow_def candleHigh_def js_or_def initialInvestedCapital_def)

lemma equityTrace_winCandles:
  "equityTrace defaultConfig btInitial winCandles = [0, 100, 300]"
  by (simp add: winCandles_def processCandle_def trade_def track_def Let_def
      openPosition_def closeWin_def slPrice_def tpPrice_def currentEquity_def drawdown_def
      btInitial_def nextBuyPrice_def scaleInLoop.simps
      candleLow_def candleHigh_def js_or_def initialInvestedCapital_def)

lemma runBacktest_winCandles:
  "runBacktest defaultConfig winCandles =
     Inr \<lparr>totalProfit = 300, profitRate = 3, totalTrades = 1, winCount = 1, lossCount = 0,
          maxDrawdown = 0\<rparr>"
  unfolding runBacktest_def replay_winCandles
  by (simp add: winCandles_def btResult_def initialInvestedCapital_def toFixed2_def)

lemma runBacktest_dipCandles:
  "runBacktest defaultConfig dipCandles =
     Inr \<lparr>totalProfit = 0, profitRate = 0, totalTrades = 0, winCount = 0, lossCount = 0,
          maxDrawdown = 200\<rparr>"
  by (simp add: runBacktest_def btResult_def toFixed2_def
      dipCandles_def processCandle_def trade_def track_def Let_def
      openPosition_def slPrice_def tpPrice_def currentEquity_def drawdown_def
      btInitial_def nextBuyPrice_def scaleInLoop.simps
      candleLow_def candleHigh_def js_or_def initialInvestedCapital_def)

text \<open>
  Claim C9: the reported maximum drawdown is never negative; it is the largest per-candle
  value of \<open>(peak - equity) / peak * 100\<close> against the running equity peak, a candle with
  \<open>peak \<le> 0\<close> counting as \<open>0\<close> (rounded to two decimals for the report); and it is \<open>0\<close>
  whenever the equity never decreases over the replay.
\<close>

theorem max_drawdown_bound:
  assumes "runBacktest config candles = Inr r"
  shows "0 \<le> maxDrawdown r \<and>
         maxDrawdown r = toFixed2 (specMaxDrawdown 0 0 (equityTrace config btInitial candles)) \<and>
         (sorted (equityTrace config btInitial candles) \<longrightarrow> maxDrawdown r = 0)"
proof -
  let ?m = "specMaxDrawdown 0 0 (equityTrace config btInitial candles)"
  have r: "maxDrawdown r = toFixed2 (mdd (replay config btInitial candles))"
    using assms by (auto simp add: runBacktest_def btResult_def split: if_splits)
  have m: "mdd (replay config btInitial candles) = ?m"
    by (simp add: replay_spec btInitial_def)
  have "0 \<le> ?m" by (rule specMaxDrawdown_ge)
  then have "0 \<le> maxDrawdown r" by (simp add: r m toFixed2_nonneg)
  moreover have "sorted (equityTrace config btInitial candles) \<longrightarrow> maxDrawdown r = 0"
    by (simp add: r m specMaxDrawdown_sorted toFixed2_zero)
  ultimately show ?thesis by (simp add: r m)
qed

theorem max_drawdown_bound_witness:
  "runBacktest defaultConfig winCandles =
     Inr \<lparr>totalProfit = 300, profitRate = 3, totalTrades = 1, winCount = 1, lossCount = 0,
          maxDrawdown = 0\<rparr> \<and>
   equityTrace defaultConfig btInitial winCandles = [0, 100, 300] \<and>
   sorted (equityTrace defaultConfig btInitial winCandles) \<and>
   toFixed2 (specMaxDrawdown 0 0 (equityTrace defaultConfig btInitial winCandles)) = 0 \<and>
   toFixed2 (specMaxDrawdown 0 0 (equityTrace defaultConfig btInitial dipCandles)) = 200"
  using max_drawdown_bound [OF runBacktest_winCandles] runBacktest_winCandles
    max_drawdown_bound [OF runBacktest_dipCandles]
  by (simp add: equityTrace_winCandles)

section \<open>The step counter of the live engine\<close>

lemma dispatch_ladderInv:
  assumes "1 \<le> maxBuySteps conf" "ladderInv conf e"
  shows "ladderInv conf (dispatch conf e ev)"
  using assms
  by (cases ev)
     (auto simp add: ladderInv_def status_updateLoop status_handleToggleBot scaleInCondition_def
       split: option.splits OrderOutcome.splits if_splits)

lemma run_ladderInv:
  assumes "1 \<le> maxBuySteps conf" "ladderInv conf e"
  shows "ladderInv conf (run conf e evs)"
  using assms(2) unfolding run_def
  by (induction evs arbitrary: e) (simp_all add: dispatch_ladderInv [OF assms(1)])

lemma initial_ladderInv: "1 \<le> maxBuySteps conf \<Longrightarrow> ladderInv conf initialEngine"
  by (simp add: ladderInv_def initialEngine_def initialStatus_def)

lemma dispatch_monotone:
  assumes "ladderInv conf e" "isActive (status e)" "isActive (status (dispatch conf e ev))"
  shows "currentStep (status e) \<le> currentStep (status (dispatch conf e ev))"
  using assms
  by (cases ev)
     (auto simp add: ladderInv_def status_updateLoop status_handleToggleBot
       split: option.splits OrderOutcome.splits if_splits)

lemma dispatch_reset:
  assumes "ladderInv conf e" "isActive (status e)"
  shows "currentStep (status (dispatch conf e ev)) = 0 \<longleftrightarrow> exitsOn conf e ev \<or> stopsOn e ev"
proof (cases ev)
  case (Tick tk order)
  show ?thesis
  proof (cases tk)
    case None
    with Tick assms show ?thesis by (simp add: status_updateLoop ladderInv_def)
  next
    case (Some ticker)
    with Tick assms show ?thesis
      by (auto simp add: status_updateLoop ladderInv_def split: OrderOutcome.splits)
  qed
next
  case (Toggle tk order)
  with assms show ?thesis by (simp add: status_handleToggleBot)
qed

lemma dispatch_grow:
  assumes "isActive (status e)"
    "currentStep (status e) < currentStep (status (dispatch conf e ev))"
  shows "int (currentStep (status e)) < maxBuySteps conf \<and>
         currentStep (status (dispatch conf e ev)) = currentStep (status e) + 1"
  using assms
  by (cases ev)
     (auto simp add: status_updateLoop status_handleToggleBot scaleInCondition_def
       split: option.splits OrderOutcome.splits if_splits)

lemma run_start:
  "run defaultConfig initialEngine [Toggle (Some (tickerAt 100)) OrderOk] = startedEngine"
  by (simp add: run_def handleToggleBot_def startedEngine_def initialEngine_def initialStatus_def)

text \<open>
  Claim C8, for a configuration with \<^verbatim>\<open>maxBuySteps \<ge> 1\<close> (the specification's
  \<^verbatim>\<open>maxSteps: integer \<ge> 1\<close>) and any sequence of ticks and button clicks from the initial
  state: \<^verbatim>\<open>currentStep\<close> never exceeds \<^verbatim>\<open>maxBuySteps\<close>; while the position stays active
  over an event it does not decrease; it only grows from a value below \<^verbatim>\<open>maxBuySteps\<close>;
  from an active position it becomes \<open>0\<close> exactly on an exit tick or a stop; and it is \<open>0\<close>
  whenever no position is active.
\<close>

theorem step_ladder:
  assumes "1 \<le> maxBuySteps conf"
  shows "int (currentStep (status (run conf initialEngine evs))) \<le> maxBuySteps conf \<and>
    (isActive (status (run conf initialEngine evs)) \<and>
     isActive (status (dispatch conf (run conf initialEngine evs) ev)) \<longrightarrow>
       currentStep (status (run conf initialEngine evs))
         \<le> currentStep (status (dispatch conf (run conf initialEngine evs) ev))) \<and>
    (isActive (status (run conf initialEngine evs)) \<and>
     currentStep (status (run conf initialEngine evs))
       < currentStep (status (dispatch conf (run conf initialEngine evs) ev)) \<longrightarrow>
       int (currentStep (status (run conf initialEngine evs))) < maxBuySteps conf) \<and>
    (isActive (status (run conf initialEngine evs)) \<longrightarrow>
       (currentStep (status (dispatch conf (run conf initialEngine evs) ev)) = 0 \<longleftrightarrow>
          exitsOn conf (run conf initialEngine evs) ev \<or> stopsOn (run conf initialEngine evs) ev)) \<and>
    (\<not> isActive (status (run conf initialEngine evs)) \<longrightarrow>
       currentStep (status (run conf initialEngine evs)) = 0)"
proof -
  let ?e = "run conf initialEngine evs"
  have inv: "ladderInv conf ?e"
    using assms by (simp add: run_ladderInv initial_ladderInv)
  then have "int (currentStep (status ?e)) \<le> maxBuySteps conf"
    and "\<not> isActive (status ?e) \<longrightarrow> currentStep (status ?e) = 0"
    by (simp_all add: ladderInv_def)
  moreover have "isActive (status ?e) \<and> isActive (status (dispatch conf ?e ev)) \<longrightarrow>
      currentStep (status ?e) \<le> currentStep (status (dispatch conf ?e ev))"
    using dispatch_monotone [OF inv] by blast
  moreover have "isActive (status ?e) \<and>
      currentStep (status ?e) < currentStep (status (dispatch conf ?e ev)) \<longrightarrow>
      int (currentStep (status ?e)) < maxBuySteps conf"
    using dispatch_grow by blast
  moreover have "isActive (status ?e) \<longrightarrow>
      (currentStep (status (dispatch conf ?e ev)) = 0 \<longleftrightarrow> exitsOn conf ?e ev \<or> stopsOn ?e ev)"
    using dispatch_reset [OF inv] by blast
  ultimately show ?thesis by blast
qed

theorem step_ladder_witness:
  "1 \<le> maxBuySteps defaultConfig \<and>
   run defaultConfig initialEngine [Toggle (Some (tickerAt 100)) OrderOk] = startedEngine \<and>
   isActive (status startedEngine) \<and> currentStep (status startedEngine) = 1 \<and>
   currentStep (status (dispatch defaultConfig startedEngine (Tick (Some (tickerAt 97)) OrderOk))) = 2 \<and>
   exitsOn defaultConfig startedEngine (Tick (Some (tickerAt 103)) OrderOk) \<and>
   currentStep (status (dispatch defaultConfig startedEngine (Tick (Some (tickerAt 103)) OrderOk))) = 0 \<and>
   stopsOn startedEngine (Toggle None OrderOk) \<and>
   currentStep (status (dispatch defaultConfig startedEngine (Toggle None OrderOk))) = 0 \<and>
   \<not> isActive (status (run defaultConfig initialEngine [])) \<and>
   currentStep (status (run defaultConfig initialEngine [])) = 0"
proof -
  let ?evs = "[Toggle (Some (tickerAt 100)) OrderOk]"
  have h: "1 \<le> maxBuySteps defaultConfig" by simp
  have s: "currentStep (status (dispatch defaultConfig startedEngine (Tick (Some (tickerAt 97)) OrderOk))) = 2"
    by (simp add: status_updateLoop exitCondition_def scaleInCondition_def)
  have i: "\<not> isActive (status (run defaultConfig initialEngine []))"
    by (simp add: run_def initialEngine_def initialStatus_def)
  note a = step_ladder [OF h, of ?evs "Tick (Some (tickerAt 97)) OrderOk", unfolded run_start]
  note b = step_ladder [OF h, of ?evs "Tick (Some (tickerAt 103)) OrderOk", unfolded run_start]
  note c = step_ladder [OF h, of ?evs "Toggle None OrderOk", unfolded run_start]
  note d = step_ladder [OF h, of "[]" "Toggle None OrderOk"]
  show ?thesis
    using h a b c d s i run_start by (simp add: exitCondition_def)
qed


section \<open>The average price\<close>

lemma sums_snoc [simp]:
  "sumAmount (fs @ [(p, a)]) = sumAmount fs + a"
  "sumQuantity (fs @ [(p, a)]) = sumQuantity fs + a / p"
  "sumAmount [] = 0" "sumQuantity [] = 0"
  by (simp_all add: sumAmount_def sumQuantity_def)

lemma sums_Cons [simp]:
  "sumAmount ((p, a) # fs) = a + sumAmount fs"
  "sumQuantity ((p, a) # fs) = a / p + sumQuantity fs"
  by (simp_all add: sumAmount_def sumQuantity_def)

lemma list_all_sums_nonneg:
  "list_all (\<lambda>(p, a). 0 < p \<and> 0 < a) fs \<Longrightarrow> 0 \<le> sumAmount fs \<and> 0 \<le> sumQuantity fs"
  by (induction fs) auto

lemma positiveFills_sums:
  assumes "positiveFills fs"
  shows "0 < sumAmount fs" "0 < sumQuantity fs"
proof -
  obtain p a gs where fs: "fs = (p, a) # gs"
    using assms by (cases fs) (auto simp: positiveFills_def)
  with assms have pa: "0 < p" "0 < a" and gs: "list_all (\<lambda>(p, a). 0 < p \<and> 0 < a) gs"
    by (simp_all add: positiveFills_def)
  from list_all_sums_nonneg [OF gs] pa show "0 < sumAmount fs" "0 < sumQuantity fs"
    by (simp_all add: fs add_pos_nonneg)
qed

lemma positiveFills_snoc:
  "0 < p \<Longrightarrow> 0 < a \<Longrightarrow> fs = [] \<or> positiveFills fs \<Longrightarrow> positiveFills (fs @ [(p, a)])"
  by (auto simp add: positiveFills_def)

lemma currentBuyAmount_pos:
  "0 < initialAmount conf \<Longrightarrow> 0 \<le> premiumRate conf \<Longrightarrow> 0 < currentBuyAmount conf n"
  by (simp add: currentBuyAmount_def add_pos_nonneg)

lemma buyAmount_pos:
  "0 < initialAmount conf \<Longrightarrow> 0 \<le> premiumRate conf \<Longrightarrow> 0 < buyAmount conf n"
  by (simp add: buyAmount_def initialInvestedCapital_def add_pos_nonneg)

lemma startStatus_ledger:
  assumes "0 < initialAmount conf" "0 < price ticker"
  shows "ledgerInv (e\<lparr>status := startStatus conf ticker, isStarting := False\<rparr>)
           [(price ticker, initialBuyAmount conf)]"
  using assms
  by (simp add: ledgerInv_def startStatus_def positiveFills_def initialBuyAmount_def)

lemma scaleInStatus_ledger:
  assumes "0 < initialAmount conf" "0 \<le> premiumRate conf" "0 < price ticker"
    "ledgerInv e fs" "isActive (status e)"
  shows "ledgerInv (e'\<lparr>status := scaleInStatus conf (status e) ticker\<rparr>)
           (fs @ [(price ticker, currentBuyAmount conf (currentStep (status e) + 1))])"
  using assms currentBuyAmount_pos [OF assms(1,2), of "currentStep (status e) + 1"]
  by (simp add: ledgerInv_def scaleInStatus_def Let_def positiveFills_snoc)

lemma dispatch_ledgerInv:
  assumes pos: "0 < initialAmount conf" "0 \<le> premiumRate conf"
    and inv: "ledgerInv e fs"
    and tk: "\<forall>t. tickerOf ev = Some t \<longrightarrow> 0 < price t"
  shows "ledgerInv (dispatch conf e ev)
           (if exitsOn conf e ev \<or> stopsOn e ev then []
            else case bought conf e ev of None \<Rightarrow> fs | Some f \<Rightarrow> fs @ [f])"
proof (cases ev)
  case (Toggle tk order)
  show ?thesis
  proof (cases "isActive (status e)")
    case True
    then show ?thesis
      using Toggle by (simp add: handleToggleBot_def ledgerInv_def stopStatus_def)
  next
    case False
    then have fs: "fs = []" using inv by (simp add: ledgerInv_def)
    show ?thesis
    proof (cases tk)
      case None
      then show ?thesis using Toggle False fs
        by (simp add: handleToggleBot_def ledgerInv_def)
    next
      case (Some ticker)
      then have p: "0 < price ticker" using tk Toggle by simp
      show ?thesis
      proof (cases order)
        case OrderOk
        show ?thesis
        proof (cases "accessKey conf = [] \<or> secretKey conf = []")
          case True
          then show ?thesis using Toggle False fs Some OrderOk
            by (auto simp add: handleToggleBot_def ledgerInv_def)
        next
          case False
          then show ?thesis
            using Toggle \<open>\<not> isActive (status e)\<close> fs Some OrderOk
              startStatus_ledger [OF pos(1) p, of e]
            by (simp add: handleToggleBot_def)
        qed
      next
        case (OrderFailed m)
        then show ?thesis using Toggle False fs Some
          by (simp add: handleToggleBot_def ledgerInv_def)
      qed
    qed
  qed
next
  case (Tick tk order)
  show ?thesis
  proof (cases tk)
    case None
    then show ?thesis using Tick inv
      by (simp add: updateLoop_def ledgerInv_def)
  next
    case (Some ticker)
    then have p: "0 < price ticker" using tk Tick by simp
    show ?thesis
    proof (cases "isStarting e")
      case True
      then show ?thesis using Tick Some inv
        by (cases order) (simp_all add: updateLoop_def)
    next
      case notStarting: False
      show ?thesis
      proof (cases "isActive (status e)")
        case False
        then have "fs = []" using inv by (simp add: ledgerInv_def)
        then show ?thesis using Tick Some False notStarting
          by (cases order) (simp_all add: updateLoop_def Let_def ledgerInv_def)
      next
        case active: True
        show ?thesis
        proof (cases "exitCondition conf (status e) (price ticker)")
          case True
          then show ?thesis using Tick Some active notStarting
            by (simp add: ledgerInv_def status_updateLoop exitStatus_def)
        next
          case noExit: False
          show ?thesis
          proof (cases "scaleInCondition conf (status e) (price ticker)")
            case False
            then show ?thesis using Tick Some active notStarting noExit inv
              by (cases order) (simp_all add: ledgerInv_def status_updateLoop)
          next
            case True
            show ?thesis
            proof (cases order)
              case OrderOk
              then show ?thesis
                using Tick Some active notStarting noExit True
                  scaleInStatus_ledger [OF pos p inv active, of "e\<lparr>isNetworkError := False\<rparr>"]
                by (simp add: updateLoop_def Let_def)
            next
              case (OrderFailed m)
              then show ?thesis using Tick Some active notStarting noExit True inv
                by (simp add: ledgerInv_def status_updateLoop)
            qed
          qed
        qed
      qed
    qed
  qed
qed

lemma run_ledgerInv:
  assumes pos: "0 < initialAmount conf" "0 \<le> premiumRate conf"
  shows "ledgerInv e fs \<Longrightarrow> \<forall>ev\<in>set evs. \<forall>t. tickerOf ev = Some t \<longrightarrow> 0 < price t \<Longrightarrow>
         ledgerInv (run conf e evs) (fills conf e fs evs)"
proof (induction evs arbitrary: e fs)
  case Nil
  then show ?case by (simp add: run_def)
next
  case (Cons ev evs)
  have "ledgerInv (dispatch conf e ev)
           (if exitsOn conf e ev \<or> stopsOn e ev then []
            else case bought conf e ev of None \<Rightarrow> fs | Some f \<Rightarrow> fs @ [f])"
    using Cons.prems by (intro dispatch_ledgerInv [OF pos]) simp_all
  from Cons.IH [OF this] Cons.prems(2) show ?case
    by (simp add: run_def)
qed

lemma fillRung_ledger:
  assumes pos: "0 < initialAmount config" "0 \<le> premiumRate config"
    and inv: "btLedgerInv st fs" and "0 < step st" and "0 < l" and "l \<le> nextBuyPrice config st"
  shows "btLedgerInv (fillRung config st)
           (fs @ [(nextBuyPrice config st, buyAmount config (step st + 1))])"
  using assms buyAmount_pos [OF pos, of "step st + 1"]
  by (simp add: btLedgerInv_def fillRung_def Let_def positiveFills_snoc)

lemma scaleInLoop_ledger:
  "0 < initialAmount config \<Longrightarrow> 0 \<le> premiumRate config \<Longrightarrow>
   btLedgerInv st fs \<Longrightarrow> 0 < step st \<Longrightarrow> 0 < l \<Longrightarrow>
   btLedgerInv (scaleInLoop config l st) (fs @ rungs config l st)"
proof (induction config l st arbitrary: fs rule: scaleInLoop.induct)
  case (1 config l st)
  note pos = "1.prems"(1,2)
  show ?case
  proof (cases "int (step st) < maxBuySteps config \<and> l \<le> nextBuyPrice config st")
    case True
    have "btLedgerInv (fillRung config st)
            (fs @ [(nextBuyPrice config st, buyAmount config (step st + 1))])"
      using True "1.prems" fillRung_ledger [of config st fs l] by simp
    moreover have "0 < step (fillRung config st)"
      by simp
    ultimately have "btLedgerInv (scaleInLoop config l (fillRung config st))
        ((fs @ [(nextBuyPrice config st, buyAmount config (step st + 1))])
           @ rungs config l (fillRung config st))"
      using "1.IH" [OF True pos] "1.prems"(5) by blast
    then show ?thesis
      using True
      by (subst scaleInLoop.simps, subst rungs.simps) simp
  next
    case False
    then show ?thesis
      using "1.prems"(3)
      by (subst scaleInLoop.simps, subst rungs.simps) auto
  qed
qed

lemma track_ledger [simp]: "btLedgerInv (track st p) fs = btLedgerInv st fs"
  by (simp add: btLedgerInv_def track_def Let_def)

lemma processCandle_ledger:
  assumes pos: "0 < initialAmount config" "0 \<le> premiumRate config"
    and inv: "btLedgerInv st fs" and c: "0 < cprice candle" "0 < candleLow candle"
  shows "btLedgerInv (processCandle config st candle) (btFillsAfter config st fs candle)"
proof (cases "step st = 0")
  case True
  then show ?thesis
    using pos c unfolding processCandle_def track_ledger
    by (simp add: trade_def btFillsAfter_def openPosition_def btLedgerInv_def
        positiveFills_def initialInvestedCapital_def)
next
  case False
  then have open_pos: "0 < step st" by simp
  show ?thesis
  proof (cases "candleLow candle \<le> slPrice config st \<or> candleHigh candle \<ge> tpPrice config st")
    case True
    then show ?thesis
      using False unfolding processCandle_def track_ledger
      by (auto simp add: trade_def btFillsAfter_def closeLoss_def closeWin_def btLedgerInv_def)
  next
    case noExit: False
    then show ?thesis
      using False scaleInLoop_ledger [OF pos inv open_pos c(2)]
      unfolding processCandle_def track_ledger
      by (simp add: trade_def btFillsAfter_def)
  qed
qed

lemma replay_ledgerInv:
  assumes pos: "0 < initialAmount config" "0 \<le> premiumRate config"
  shows "btLedgerInv st fs \<Longrightarrow> \<forall>c\<in>set candles. 0 < cprice c \<and> 0 < candleLow c \<Longrightarrow>
         btLedgerInv (replay config st candles) (btFills config st fs candles)"
proof (induction candles arbitrary: st fs)
  case Nil
  then show ?case by simp
next
  case (Cons candle candles)
  have "btLedgerInv (processCandle config st candle) (btFillsAfter config st fs candle)"
    using Cons.prems by (simp add: processCandle_ledger [OF pos])
  from Cons.IH [OF this] Cons.prems(2) show ?case
    by simp
qed

lemma run_twoBuys:
  "run defaultConfig initialEngine twoBuys =
     updateLoop defaultConfig (Some (tickerAt 97)) OrderOk startedEngine"
  using run_start by (simp add: twoBuys_def run_def)

lemma fills_twoBuys:
  "fills defaultConfig initialEngine [] twoBuys = [(100, 10000), (97, 10000)]"
proof -
  have "dispatch defaultConfig initialEngine (Toggle (Some (tickerAt 100)) OrderOk) = startedEngine"
    using run_start by (simp add: run_def)
  moreover have "\<not> isActive (status initialEngine)"
    by (simp add: initialEngine_def initialStatus_def)
  ultimately show ?thesis
    by (simp add: twoBuys_def exitCondition_def scaleInCondition_def initialBuyAmount_def
        currentBuyAmount_def)
qed

lemma active_twoBuys: "isActive (status (run defaultConfig initialEngine twoBuys))"
  by (simp add: run_twoBuys status_updateLoop exitCondition_def scaleInCondition_def)

lemma replay_rungCandles:
  "step (replay defaultConfig btInitial rungCandles) = 2"
  by (simp add: rungCandles_def processCandle_def trade_def track_def Let_def
      openPosition_def slPrice_def tpPrice_def fillRung_def
      btInitial_def nextBuyPrice_def scaleInLoop.simps
      candleLow_def candleHigh_def js_or_def initialInvestedCapital_def)

lemma btFills_rungCandles:
  "btFills defaultConfig btInitial [] rungCandles = [(100, 10000), (98, 10000)]"
  by (simp add: rungCandles_def processCandle_def trade_def track_def Let_def btFillsAfter_def
      openPosition_def slPrice_def tpPrice_def fillRung_def buyAmount_def
      btInitial_def nextBuyPrice_def rungs.simps
      candleLow_def candleHigh_def js_or_def initialInvestedCapital_def)

text \<open>
  Claim C1, for a configuration with \<^verbatim>\<open>initialAmount > 0\<close> and \<^verbatim>\<open>premiumRate \<ge> 0\<close> and for
  positive prices. Live engine: after any sequence of ticks and clicks from the initial
  state, an active position has \<open>averagePrice = totalInvested / totalQuantity\<close> with a
  positive quantity, the totals are the sums over the position's fills (the first buy and
  every accepted scale-in), and so \<open>averagePrice\<close> is the sum of the amounts divided by the
  sum of \<open>amount / price\<close>. Backtest: the same after any sequence of candles, for the first
  buy and every simulated scale-in.
\<close>

theorem average_price_invariant:
  assumes "0 < initialAmount conf" and "0 \<le> premiumRate conf"
  shows "((\<forall>ev\<in>set evs. \<forall>t. tickerOf ev = Some t \<longrightarrow> 0 < price t) \<and>
          isActive (status (run conf initialEngine evs)) \<longrightarrow>
            0 < totalQuantity (status (run conf initialEngine evs)) \<and>
            averagePrice (status (run conf initialEngine evs)) =
              totalInvested (status (run conf initialEngine evs)) /
              totalQuantity (status (run conf initialEngine evs)) \<and>
            totalInvested (status (run conf initialEngine evs)) =
              sumAmount (fills conf initialEngine [] evs) \<and>
            totalQuantity (status (run conf initialEngine evs)) =
              sumQuantity (fills conf initialEngine [] evs) \<and>
            averagePrice (status (run conf initialEngine evs)) =
              sumAmount (fills conf initialEngine [] evs) /
              sumQuantity (fills conf initialEngine [] evs)) \<and>
         ((\<forall>c\<in>set candles. 0 < cprice c \<and> 0 < candleLow c) \<and>
          0 < step (replay conf btInitial candles) \<longrightarrow>
            0 < totalQty (replay conf btInitial candles) \<and>
            avgPrice (replay conf btInitial candles) =
              btTotalInvested (replay conf btInitial candles) /
              totalQty (replay conf btInitial candles) \<and>
            btTotalInvested (replay conf btInitial candles) =
              sumAmount (btFills conf btInitial [] candles) \<and>
            totalQty (replay conf btInitial candles) =
              sumQuantity (btFills conf btInitial [] candles) \<and>
            avgPrice (replay conf btInitial candles) =
              sumAmount (btFills conf btInitial [] candles) /
              sumQuantity (btFills conf btInitial [] candles))"
proof (intro conjI impI)
  assume h: "(\<forall>ev\<in>set evs. \<forall>t. tickerOf ev = Some t \<longrightarrow> 0 < price t) \<and>
             isActive (status (run conf initialEngine evs))"
  have "ledgerInv initialEngine []"
    by (simp add: ledgerInv_def initialEngine_def initialStatus_def)
  from run_ledgerInv [OF assms this, of evs] h
  have inv: "ledgerInv (run conf initialEngine evs) (fills conf initialEngine [] evs)"
    by blast
  with h have pf: "positiveFills (fills conf initialEngine [] evs)"
    and i: "totalInvested (status (run conf initialEngine evs)) =
              sumAmount (fills conf initialEngine [] evs)"
    and q: "totalQuantity (status (run conf initialEngine evs)) =
              sumQuantity (fills conf initialEngine [] evs)"
    and a: "averagePrice (status (run conf initialEngine evs)) =
              totalInvested (status (run conf initialEngine evs)) /
              totalQuantity (status (run conf initialEngine evs))"
    by (simp_all add: ledgerInv_def)
  show "0 < totalQuantity (status (run conf initialEngine evs))"
    using positiveFills_sums(2) [OF pf] q by simp
  show "averagePrice (status (run conf initialEngine evs)) =
          totalInvested (status (run conf initialEngine evs)) /
          totalQuantity (status (run conf initialEngine evs))" by (rule a)
  show "totalInvested (status (run conf initialEngine evs)) =
          sumAmount (fills conf initialEngine [] evs)" by (rule i)
  show "totalQuantity (status (run conf initialEngine evs)) =
          sumQuantity (fills conf initialEngine [] evs)" by (rule q)
  show "averagePrice (status (run conf initialEngine evs)) =
          sumAmount (fills conf initialEngine [] evs) /
          sumQuantity (fills conf initialEngine [] evs)"
    using a i q by simp
next
  assume h: "(\<forall>c\<in>set candles. 0 < cprice c \<and> 0 < candleLow c) \<and>
             0 < step (replay conf btInitial candles)"
  have "btLedgerInv btInitial []"
    by (simp add: btLedgerInv_def btInitial_def)
  from replay_ledgerInv [OF assms this, of candles] h
  have inv: "btLedgerInv (replay conf btInitial candles) (btFills conf btInitial [] candles)"
    by blast
  with h have pf: "positiveFills (btFills conf btInitial [] candles)"
    and i: "btTotalInvested (replay conf btInitial candles) =
              sumAmount (btFills conf btInitial [] candles)"
    and q: "totalQty (replay conf btInitial candles) =
              sumQuantity (btFills conf btInitial [] candles)"
    and a: "avgPrice (replay conf btInitial candles) =
              btTotalInvested (replay conf btInitial candles) /
              totalQty (replay conf btInitial candles)"
    by (simp_all add: btLedgerInv_def)
  show "0 < totalQty (replay conf btInitial candles)"
    using positiveFills_sums(2) [OF pf] q by simp
  show "avgPrice (replay conf btInitial candles) =
          btTotalInvested (replay conf btInitial candles) /
          totalQty (replay conf btInitial candles)" by (rule a)
  show "btTotalInvested (replay conf btInitial candles) =
          sumAmount (btFills conf btInitial [] candles)" by (rule i)
  show "totalQty (replay conf btInitial candles) =
          sumQuantity (btFills conf btInitial [] candles)" by (rule q)
  show "avgPrice (replay conf btInitial candles) =
          sumAmount (btFills conf btInitial [] candles) /
          sumQuantity (btFills conf btInitial [] candles)"
    using a i q by simp
qed

theorem average_price_invariant_witness:
  "0 < initialAmount defaultConfig \<and> 0 \<le> premiumRate defaultConfig \<and>
   isActive (status (run defaultConfig initialEngine twoBuys)) \<and>
   fills defaultConfig initialEngine [] twoBuys = [(100, 10000), (97, 10000)] \<and>
   averagePrice (status (run defaultConfig initialEngine twoBuys)) = 19400 / 197 \<and>
   0 < step (replay defaultConfig btInitial rungCandles) \<and>
   btFills defaultConfig btInitial [] rungCandles = [(100, 10000), (98, 10000)] \<and>
   avgPrice (replay defaultConfig btInitial rungCandles) = 9800 / 99"
proof -
  have h: "0 < initialAmount defaultConfig" "0 \<le> premiumRate defaultConfig"
    by simp_all
  have t: "\<forall>ev\<in>set twoBuys. \<forall>t. tickerOf ev = Some t \<longrightarrow> 0 < price t"
    by (auto simp add: twoBuys_def)
  have c: "\<forall>c\<in>set rungCandles. 0 < cprice c \<and> 0 < candleLow c"
    by (simp add: rungCandles_def candleLow_def js_or_def)
  have s: "0 < step (replay defaultConfig btInitial rungCandles)"
    by (simp add: replay_rungCandles)
  note inst = average_price_invariant [OF h, of twoBuys rungCandles]
  from inst t active_twoBuys
  have "averagePrice (status (run defaultConfig initialEngine twoBuys)) =
          sumAmount (fills defaultConfig initialEngine [] twoBuys) /
          sumQuantity (fills defaultConfig initialEngine [] twoBuys)"
    by blast
  then have a: "averagePrice (status (run defaultConfig initialEngine twoBuys)) = 19400 / 197"
    by (simp add: fills_twoBuys)
  from inst c s
  have "avgPrice (replay defaultConfig btInitial rungCandles) =
          sumAmount (btFills defaultConfig btInitial [] rungCandles) /
          sumQuantity (btFills defaultConfig btInitial [] rungCandles)"
    by blast
  then have b: "avgPrice (replay defaultConfig btInitial rungCandles) = 9800 / 99"
    by (simp add: btFills_rungCandles)
  show ?thesis
    using h s active_twoBuys a b fills_twoBuys btFills_rungCandles by blast
qed


section \<open>The profit-and-loss percentage\<close>

lemma dispatch_idle_zero:
  assumes "\<not> isActive (status e) \<longrightarrow> averagePrice (status e) = 0 \<and> pnlPercentage (status e) = 0"
  shows "\<not> isActive (status (dispatch conf e ev)) \<longrightarrow>
           averagePrice (status (dispatch conf e ev)) = 0 \<and>
           pnlPercentage (status (dispatch conf e ev)) = 0"
  using assms
  by (cases ev)
     (auto simp add: status_updateLoop status_handleToggleBot exitStatus_def stopStatus_def
        scaleInStatus_def Let_def
        split: option.splits OrderOutcome.splits if_splits)

lemma run_idle_zero:
  "\<not> isActive (status e) \<longrightarrow> averagePrice (status e) = 0 \<and> pnlPercentage (status e) = 0 \<Longrightarrow>
   \<not> isActive (status (run conf e evs)) \<longrightarrow>
     averagePrice (status (run conf e evs)) = 0 \<and> pnlPercentage (status (run conf e evs)) = 0"
  unfolding run_def
proof (induction evs arbitrary: e)
  case Nil
  then show ?case by simp
next
  case (Cons ev evs)
  from Cons.IH [OF dispatch_idle_zero [OF Cons.prems]] show ?case by simp
qed

lemma ledgerInv_average_pos:
  assumes "ledgerInv e fs" "isActive (status e)"
  shows "0 < averagePrice (status e)"
proof -
  from assms have pf: "positiveFills fs"
    and i: "totalInvested (status e) = sumAmount fs"
    and q: "totalQuantity (status e) = sumQuantity fs"
    and a: "averagePrice (status e) = totalInvested (status e) / totalQuantity (status e)"
    by (simp_all add: ledgerInv_def)
  from positiveFills_sums [OF pf] show ?thesis
    by (simp add: a i q)
qed

lemma run_startThenExit:
  "status (run defaultConfig initialEngine startThenExit) = exitStatus (status startedEngine) (tickerAt 103)"
  using run_start
  by (simp add: startThenExit_def run_def status_updateLoop exitCondition_def)

text \<open>
  Claim C3, for a configuration with \<^verbatim>\<open>initialAmount > 0\<close> and \<^verbatim>\<open>premiumRate \<ge> 0\<close> and
  positive ticker prices, after any sequence of ticks and clicks from the initial state.
  The percentage of line 208 is \<open>(price - averagePrice) / averagePrice * 100\<close> whenever the
  average price is positive, and the average price of an active position is positive. The
  average price is \<open>0\<close> when no position is open; the percentage the engine holds is then
  \<open>0\<close>, and a tick at any price leaves it \<open>0\<close>.
\<close>

theorem pnl_percentage:
  assumes "0 < initialAmount conf" and "0 \<le> premiumRate conf"
    and "\<forall>ev\<in>set evs. \<forall>t. tickerOf ev = Some t \<longrightarrow> 0 < price t"
  shows "(0 < averagePrice s \<longrightarrow> pnl s p = (p - averagePrice s) / averagePrice s * 100) \<and>
         (isActive (status (run conf initialEngine evs)) \<longrightarrow>
            0 < averagePrice (status (run conf initialEngine evs)) \<and>
            pnl (status (run conf initialEngine evs)) p =
              (p - averagePrice (status (run conf initialEngine evs)))
                / averagePrice (status (run conf initialEngine evs)) * 100) \<and>
         (\<not> isActive (status (run conf initialEngine evs)) \<longrightarrow>
            averagePrice (status (run conf initialEngine evs)) = 0 \<and>
            pnlPercentage (status (run conf initialEngine evs)) = 0 \<and>
            pnlPercentage (status (updateLoop conf tk order (run conf initialEngine evs))) = 0)"
proof -
  let ?e = "run conf initialEngine evs"
  have f: "0 < averagePrice s \<longrightarrow> pnl s p = (p - averagePrice s) / averagePrice s * 100" for s
    by (simp add: pnl_def js_or_def)
  have "ledgerInv initialEngine []"
    by (simp add: ledgerInv_def initialEngine_def initialStatus_def)
  from run_ledgerInv [OF assms(1,2) this assms(3)]
  have act: "isActive (status ?e) \<longrightarrow> 0 < averagePrice (status ?e)"
    using ledgerInv_average_pos by blast
  have i: "\<not> isActive (status initialEngine) \<longrightarrow>
      averagePrice (status initialEngine) = 0 \<and> pnlPercentage (status initialEngine) = 0"
    by (simp add: initialEngine_def initialStatus_def)
  have idle: "\<not> isActive (status ?e) \<longrightarrow>
      averagePrice (status ?e) = 0 \<and> pnlPercentage (status ?e) = 0"
    by (rule run_idle_zero [OF i])
  have tick: "\<not> isActive (status ?e) \<longrightarrow>
      pnlPercentage (status (updateLoop conf tk order ?e)) = pnlPercentage (status ?e)"
    by (simp add: status_updateLoop split: option.splits)
  from f [of s] f [of "status ?e"] act idle tick show ?thesis
    by simp
qed

theorem pnl_percentage_witness:
  "0 < initialAmount defaultConfig \<and> 0 \<le> premiumRate defaultConfig \<and>
   isActive (status (run defaultConfig initialEngine [Toggle (Some (tickerAt 100)) OrderOk])) \<and>
   averagePrice (status (run defaultConfig initialEngine [Toggle (Some (tickerAt 100)) OrderOk])) = 100 \<and>
   pnl (status (run defaultConfig initialEngine [Toggle (Some (tickerAt 100)) OrderOk])) 103 = 3 \<and>
   \<not> isActive (status (run defaultConfig initialEngine startThenExit)) \<and>
   averagePrice (status (run defaultConfig initialEngine startThenExit)) = 0 \<and>
   pnlPercentage (status (run defaultConfig initialEngine startThenExit)) = 0 \<and>
   pnlPercentage (status (updateLoop defaultConfig (Some (tickerAt 50)) OrderOk
      (run defaultConfig initialEngine startThenExit))) = 0"
proof -
  let ?a = "[Toggle (Some (tickerAt 100)) OrderOk]"
  have h: "0 < initialAmount defaultConfig" "0 \<le> premiumRate defaultConfig"
    by simp_all
  have ta: "\<forall>ev\<in>set ?a. \<forall>t. tickerOf ev = Some t \<longrightarrow> 0 < price t"
    by simp
  have tb: "\<forall>ev\<in>set startThenExit. \<forall>t. tickerOf ev = Some t \<longrightarrow> 0 < price t"
    by (auto simp add: startThenExit_def)
  have act: "isActive (status (run defaultConfig initialEngine ?a))"
    and avg: "averagePrice (status (run defaultConfig initialEngine ?a)) = 100"
    by (simp_all add: run_start)
  have idle: "\<not> isActive (status (run defaultConfig initialEngine startThenExit))"
    by (simp add: run_startThenExit)
  from pnl_percentage [OF h ta, of "status startedEngine" 103 "Some (tickerAt 50)" OrderOk] act
  have "pnl (status (run defaultConfig initialEngine ?a)) 103 =
      (103 - averagePrice (status (run defaultConfig initialEngine ?a)))
        / averagePrice (status (run defaultConfig initialEngine ?a)) * 100"
    by blast
  then have p: "pnl (status (run defaultConfig initialEngine ?a)) 103 = 3"
    by (simp only: avg) simp
  from pnl_percentage [OF h tb, of "status startedEngine" 103 "Some (tickerAt 50)" OrderOk] idle
  have z: "averagePrice (status (run defaultConfig initialEngine startThenExit)) = 0 \<and>
      pnlPercentage (status (run defaultConfig initialEngine startThenExit)) = 0 \<and>
      pnlPercentage (status (updateLoop defaultConfig (Some (tickerAt 50)) OrderOk
        (run defaultConfig initialEngine startThenExit))) = 0"
    by blast
  show ?thesis
    using h act avg p idle z by blast
qed


end
